theory Spec2Isabelle
  imports Complex_Main "HOL-Library.AList"
begin

section \<open>JavaScript values shared by the agents\<close>

text \<open>
  A thrown JavaScript value. The agents read two things off an error: \<open>error.message\<close>
  and \<open>error.response?.statusCode\<close> (absent on a \<open>TypeError\<close>, on \<open>new Error(...)\<close> and on
  a client error that carries no HTTP response). A function that can throw returns
  \<open>thrown + 'a\<close>, with \<open>Inl\<close> for the throw.
\<close>

record thrown =
  e_name :: string
  e_statusCode :: "nat option"
  e_message :: string

definition Error :: "string \<Rightarrow> thrown" where
  "Error msg = \<lparr>e_name = ''Error'', e_statusCode = None, e_message = msg\<rparr>"

definition TypeError :: "string \<Rightarrow> thrown" where
  "TypeError msg = \<lparr>e_name = ''TypeError'', e_statusCode = None, e_message = msg\<rparr>"

text \<open>A JavaScript string is truthy when it is not empty; \<open>undefined\<close> is falsy.\<close>

fun truthy :: "string option \<Rightarrow> bool" where
  "truthy None = False"
| "truthy (Some s) = (s \<noteq> [])"

text \<open>\<open>`${n}`\<close> for a non-negative integer: its decimal digits.\<close>

definition digit :: "nat \<Rightarrow> char" where
  "digit d = ''0123456789'' ! d"

function number_toString :: "nat \<Rightarrow> string" where
  "number_toString n =
     (if n < 10 then [digit n] else number_toString (n div 10) @ [digit (n mod 10)])"
  by pat_completeness auto
termination
  by (relation "measure id") auto

declare number_toString.simps [simp del]

text \<open>\<open>`${v}`\<close> for a string that may be \<open>undefined\<close>.\<close>

fun template :: "string option \<Rightarrow> string" where
  "template None = ''undefined''"
| "template (Some s) = s"

text \<open>
  A JavaScript value as far as \<open>getNestedValue\<close> and \<open>typeof v === 'number'\<close> look at
  it. Numbers are IEEE doubles in the source; they are modelled by exact rationals, which
  agree with the doubles on the integer counts and the quotients compared below (see
  the text at \<open>generateMonitoringReport\<close>).
\<close>

datatype jv =
  JUndefined
| JNum rat
| JStr string
| JBool bool
| JArr "jv list"
| JObj "(string \<times> jv) list"

text \<open>\<open>current?.[key]\<close>: a property of an object, \<open>undefined\<close> on anything else.\<close>

fun property :: "jv \<Rightarrow> string \<Rightarrow> jv" where
  "property (JObj kvs) key = (case map_of kvs key of None \<Rightarrow> JUndefined | Some v \<Rightarrow> v)"
| "property _ key = JUndefined"

text \<open>\<open>path.split('.')\<close>\<close>

fun split_dot :: "string \<Rightarrow> string \<Rightarrow> string list" where
  "split_dot acc [] = [rev acc]"
| "split_dot acc (c # cs) =
     (if c = CHR ''.'' then rev acc # split_dot [] cs else split_dot (c # acc) cs)"

section \<open>The cluster API and the runtime, as the agents call them\<close>

text \<open>
  Objects the cluster API returns, with the fields the agents read. A field that the
  source reads through \<open>?.\<close> is an option.
\<close>

record metadata =
  md_name :: string
  md_labels :: "(string \<times> string) list"

record deployment_status =
  ds_readyReplicas :: "nat option"
  ds_availableReplicas :: "nat option"
  ds_unavailableReplicas :: "nat option"
  ds_updatedReplicas :: "nat option"
  ds_conditions :: "string list option"

record deployment_body =
  db_metadata :: metadata
  db_replicas :: "nat option"
  db_status :: "deployment_status option"

record ingress_rule =
  ir_host :: "string option"

record ingress_spec =
  is_rules :: "ingress_rule list option"
  is_tls :: "string list option"

record ingress_body =
  ib_spec :: "ingress_spec option"

record service_port =
  sp_port :: "nat option"

record service_spec =
  ss_type :: "string option"
  ss_clusterIP :: "string option"
  ss_ports :: "service_port list option"

record lb_ingress =
  li_hostname :: "string option"
  li_ip :: "string option"

record service_status =
  st_loadBalancer_ingress :: "lb_ingress list option"

record service_body =
  sb_spec :: "service_spec option"
  sb_status :: "service_status option"

record pod_body =
  pb_name :: string
  pb_phase :: "string option"
  pb_conditions :: "(string \<times> string) list option"
  pb_restartCount :: "nat option"

record endpoint_subset =
  es_addresses :: "string list option"
  es_notReadyAddresses :: "string list option"

record endpoints_body =
  eb_subsets :: "endpoint_subset list option"

record http_response =
  resp_status :: nat
  resp_headers :: "(string \<times> string) list"

text \<open>
  A resource descriptor as the caller hands it over (\<open>metadata\<close> may be missing, and then
  reading \<open>metadata.labels\<close> throws), and the document sent to the cluster once the labels
  are stamped. Of \<open>metadata\<close> the name and the labels are kept (missing labels are the empty
  list: spreading \<open>undefined\<close> adds nothing); \<open>d_rest\<close> and \<open>r_rest\<close> stand for every
  other key of the document, copied by the spread.
\<close>

record descriptor =
  d_metadata :: "metadata option"
  d_rest :: string

record resource =
  r_metadata :: metadata
  r_rest :: string

record kubernetes_config =
  cfg_deployment :: "descriptor option"
  cfg_service :: "descriptor option"
  cfg_ingress :: "descriptor option"

text \<open>
  The three cluster clients (\<open>k8sApi\<close>, \<open>k8sCoreApi\<close>, \<open>k8sNetworkingApi\<close>) and \<open>axios\<close> are
  libraries outside the repository: they are a parameter of every function that calls
  them. Each call takes the state of the world and returns what it resolved to, or what it
  threw, with the new state.
\<close>

record 's platform =
  createNamespacedDeployment :: "string \<Rightarrow> resource \<Rightarrow> 's \<Rightarrow> (thrown + unit) \<times> 's"
  replaceNamespacedDeployment :: "string \<Rightarrow> string \<Rightarrow> resource \<Rightarrow> 's \<Rightarrow> (thrown + unit) \<times> 's"
  readNamespacedDeployment :: "string \<Rightarrow> string \<Rightarrow> 's \<Rightarrow> (thrown + deployment_body) \<times> 's"
  listNamespacedDeployment :: "string \<Rightarrow> string \<Rightarrow> 's \<Rightarrow> (thrown + deployment_body list) \<times> 's"
  createNamespacedDeploymentRollback :: "string \<Rightarrow> string \<Rightarrow> string \<Rightarrow> 's \<Rightarrow> (thrown + unit) \<times> 's"
  createNamespacedService :: "string \<Rightarrow> resource \<Rightarrow> 's \<Rightarrow> (thrown + unit) \<times> 's"
  readNamespacedService :: "string \<Rightarrow> string \<Rightarrow> 's \<Rightarrow> (thrown + service_body) \<times> 's"
  listNamespacedPod :: "string \<Rightarrow> string \<Rightarrow> 's \<Rightarrow> (thrown + pod_body list) \<times> 's"
  readNamespacedEndpoints :: "string \<Rightarrow> string \<Rightarrow> 's \<Rightarrow> (thrown + endpoints_body) \<times> 's"
  createNamespacedIngress :: "string \<Rightarrow> resource \<Rightarrow> 's \<Rightarrow> (thrown + unit) \<times> 's"
  replaceNamespacedIngress :: "string \<Rightarrow> string \<Rightarrow> resource \<Rightarrow> 's \<Rightarrow> (thrown + unit) \<times> 's"
  readNamespacedIngress :: "string \<Rightarrow> string \<Rightarrow> 's \<Rightarrow> (thrown + ingress_body) \<times> 's"
  axios_get :: "string \<Rightarrow> 's \<Rightarrow> (thrown + http_response) \<times> 's"

text \<open>\<open>sleep(ms)\<close>, \<open>new Date().toISOString()\<close> and \<open>process.env.GRAFANA_URL\<close>\<close>

record 's runtime =
  sleep :: "nat \<Rightarrow> 's \<Rightarrow> 's"
  toISOString :: "'s \<Rightarrow> string"
  GRAFANA_URL :: "string option"

section \<open>MonitorAgent: samples and the monitoring report\<close>

text \<open>
  What a getter of \<open>collectMetrics\<close> returns: its measurements, or \<open>{ error: message }\<close>
  when the cluster call threw.
\<close>

datatype 'a measured = Measured 'a | Unavailable string

record deployment_metrics =
  dm_replicas :: nat
  dm_ready_replicas :: nat
  dm_available_replicas :: nat
  dm_unavailable_replicas :: nat
  dm_updated_replicas :: nat
  dm_conditions :: "string list"

record pod_entry =
  pe_name :: string
  pe_phase :: "string option"
  pe_ready :: bool
  pe_restarts :: nat

record pod_metrics =
  pm_total_pods :: nat
  pm_running_pods :: nat
  pm_ready_pods :: nat
  pm_pods :: "pod_entry list"

record endpoint_metrics =
  em_ready_addresses :: nat
  em_not_ready_addresses :: nat

record service_metrics =
  sm_type :: "string option"
  sm_cluster_ip :: "string option"
  sm_ports :: "service_port list"
  sm_endpoints :: "endpoint_metrics measured"

record health_result =
  h_status :: string
  h_status_code :: "nat option"
  h_response_time :: "string option"
  h_message :: string

record collected =
  c_deployment :: "deployment_metrics measured"
  c_pods :: "pod_metrics measured"
  c_service :: "service_metrics measured"
  c_health :: health_result

text \<open>
  A monitoring sample: \<open>{ timestamp, ...metrics }\<close> or \<open>{ timestamp, error }\<close>.
\<close>

datatype sample =
  Sample string collected
| FailedSample string string

text \<open>\<open>r.error\<close> and \<open>r.health?.status\<close>\<close>

fun sample_error :: "sample \<Rightarrow> string option" where
  "sample_error (Sample ts m) = None"
| "sample_error (FailedSample ts msg) = Some msg"

fun sample_health_status :: "sample \<Rightarrow> string option" where
  "sample_health_status (Sample ts m) = Some (h_status (c_health m))"
| "sample_health_status (FailedSample ts msg) = None"

text \<open>The object a sample is, with the keys the getters give it.\<close>

fun measured_object :: "('a \<Rightarrow> jv) \<Rightarrow> 'a measured \<Rightarrow> jv" where
  "measured_object f (Measured x) = f x"
| "measured_object f (Unavailable msg) = JObj [(''error'', JStr msg)]"

fun opt_str :: "string option \<Rightarrow> jv" where
  "opt_str None = JUndefined"
| "opt_str (Some s) = JStr s"

fun opt_num :: "nat option \<Rightarrow> jv" where
  "opt_num None = JUndefined"
| "opt_num (Some n) = JNum (of_nat n)"

definition deployment_object :: "deployment_metrics \<Rightarrow> jv" where
  "deployment_object d = JObj
     [(''replicas'', JNum (of_nat (dm_replicas d))),
      (''ready_replicas'', JNum (of_nat (dm_ready_replicas d))),
      (''available_replicas'', JNum (of_nat (dm_available_replicas d))),
      (''unavailable_replicas'', JNum (of_nat (dm_unavailable_replicas d))),
      (''updated_replicas'', JNum (of_nat (dm_updated_replicas d))),
      (''conditions'', JArr (map JStr (dm_conditions d)))]"

definition pod_object :: "pod_entry \<Rightarrow> jv" where
  "pod_object p = JObj
     [(''name'', JStr (pe_name p)),
      (''phase'', opt_str (pe_phase p)),
      (''ready'', JBool (pe_ready p)),
      (''restarts'', JNum (of_nat (pe_restarts p)))]"

definition pods_object :: "pod_metrics \<Rightarrow> jv" where
  "pods_object p = JObj
     [(''total_pods'', JNum (of_nat (pm_total_pods p))),
      (''running_pods'', JNum (of_nat (pm_running_pods p))),
      (''ready_pods'', JNum (of_nat (pm_ready_pods p))),
      (''pods'', JArr (map pod_object (pm_pods p)))]"

definition endpoints_object :: "endpoint_metrics \<Rightarrow> jv" where
  "endpoints_object e = JObj
     [(''ready_addresses'', JNum (of_nat (em_ready_addresses e))),
      (''not_ready_addresses'', JNum (of_nat (em_not_ready_addresses e)))]"

definition service_object :: "service_metrics \<Rightarrow> jv" where
  "service_object s = JObj
     [(''type'', opt_str (sm_type s)),
      (''cluster_ip'', opt_str (sm_cluster_ip s)),
      (''ports'', JArr (map (\<lambda>p. JObj [(''port'', opt_num (sp_port p))]) (sm_ports s))),
      (''endpoints'', measured_object endpoints_object (sm_endpoints s))]"

definition health_object :: "health_result \<Rightarrow> jv" where
  "health_object h = JObj
     [(''status'', JStr (h_status h)),
      (''status_code'', opt_num (h_status_code h)),
      (''response_time'', opt_str (h_response_time h)),
      (''message'', JStr (h_message h))]"

fun sample_object :: "sample \<Rightarrow> jv" where
  "sample_object (Sample ts m) = JObj
     [(''timestamp'', JStr ts),
      (''deployment'', measured_object deployment_object (c_deployment m)),
      (''pods'', measured_object pods_object (c_pods m)),
      (''service'', measured_object service_object (c_service m)),
      (''health'', health_object (c_health m))]"
| "sample_object (FailedSample ts msg) = JObj [(''timestamp'', JStr ts), (''error'', JStr msg)]"

text \<open>
  \<open>getNestedValue(obj, path)\<close>:
  \<open>path.split('.').reduce((current, key) => current?.[key], obj)\<close>
\<close>

definition getNestedValue :: "jv \<Rightarrow> string \<Rightarrow> jv" where
  "getNestedValue obj path = foldl property obj (split_dot [] path)"

text \<open>\<open>typeof v === 'number'\<close>, keeping the number.\<close>

fun number_of :: "jv \<Rightarrow> rat option" where
  "number_of (JNum x) = Some x"
| "number_of _ = None"

text \<open>
  \<open>calculateAverage(results, path)\<close>: the mean of the numeric values found at the path,
  and 0 when no result has a number there.
\<close>

definition calculateAverage :: "sample list \<Rightarrow> string \<Rightarrow> rat" where
  "calculateAverage results path =
     (let values = List.map_filter (\<lambda>r. number_of (getNestedValue (sample_object r) path)) results
      in if length values > 0
         then foldl (\<lambda>sum val. sum + val) 0 values / of_nat (length values)
         else 0)"

record report_metrics =
  monitoring_duration :: nat
  average_ready_replicas :: rat
  average_running_pods :: rat
  health_success_rate :: rat
  data_points :: nat

record monitoring_report =
  overall_health :: string
  metrics :: "report_metrics option"
  alerts :: "string list"
  recommendations :: "string list"

text \<open>\<open>monitoringResults.filter(r => !r.error)\<close>: an empty message is falsy too.\<close>

definition validResults :: "sample list \<Rightarrow> sample list" where
  "validResults monitoringResults = filter (\<lambda>r. \<not> truthy (sample_error r)) monitoringResults"

text \<open>\<open>validResults.filter(r => r.health?.status === 'healthy').length\<close>\<close>

definition healthyChecks :: "sample list \<Rightarrow> nat" where
  "healthyChecks valid = length (filter (\<lambda>r. sample_health_status r = Some ''healthy'') valid)"

text \<open>\<open>(healthyChecks / validResults.length) * 100\<close>\<close>

definition healthPercentage :: "sample list \<Rightarrow> rat" where
  "healthPercentage valid = (of_nat (healthyChecks valid) / of_nat (length valid)) * 100"

text \<open>
  \<open>generateMonitoringReport(appName, namespace, monitoringResults)\<close>. The field
  \<open>health_success_rate\<close> holds the percentage itself; the source formats it with
  \<open>toFixed(1)\<close> and a percent sign. The percentage is compared as an exact rational:
  the double \<open>k / n * 100\<close> lies on the same side of 70, 80 and 90 as the exact value for
  every sample count a campaign can produce.
\<close>

definition generateMonitoringReport :: "string \<Rightarrow> string \<Rightarrow> sample list \<Rightarrow> monitoring_report" where
  "generateMonitoringReport appName namespace monitoringResults =
     (let valid = validResults monitoringResults in
      if length valid = 0 then
        \<lparr>overall_health = ''unknown'',
         metrics = None,
         alerts = [''No valid monitoring data collected''],
         recommendations = [''Check monitoring configuration and connectivity'']\<rparr>
      else
        (let avgReadyReplicas = calculateAverage valid ''deployment.ready_replicas'';
             avgRunningPods = calculateAverage valid ''pods.running_pods'';
             pct = healthPercentage valid;
             alerts0 = [];
             alerts1 = (if avgReadyReplicas < 1 then alerts0 @ [''Low replica count detected''] else alerts0);
             alerts2 = (if avgRunningPods < 1 then alerts1 @ [''Insufficient running pods''] else alerts1);
             alerts3 = (if pct < 80 then alerts2 @ [''Health check success rate below 80%''] else alerts2);
             recs0 = [];
             recs1 = (if avgReadyReplicas < 2
                      then recs0 @ [''Consider increasing replica count for high availability'']
                      else recs0);
             recs2 = (if pct < 90 then recs1 @ [''Investigate health check failures''] else recs1)
         in \<lparr>overall_health =
                (if pct \<ge> 90 then ''healthy'' else if pct \<ge> 70 then ''warning'' else ''unhealthy''),
              metrics = Some
                \<lparr>monitoring_duration = length monitoringResults,
                 average_ready_replicas = avgReadyReplicas,
                 average_running_pods = avgRunningPods,
                 health_success_rate = pct,
                 data_points = length valid\<rparr>,
              alerts = alerts3,
              recommendations = recs2\<rparr>))"


section \<open>DeployAgent: apply, readiness wait, address, rollback\<close>

record outcome =
  o_type :: string
  o_name :: string
  o_status :: string

text \<open>
  The object literal at the head of each block of \<open>deployToKubernetes\<close>: the descriptor
  with the labels \<open>deployment-id\<close> and \<open>managed-by\<close> written over its own.
\<close>

definition stamp :: "string \<Rightarrow> descriptor \<Rightarrow> thrown + resource" where
  "stamp deploymentId d =
     (case d_metadata d of
        None \<Rightarrow> Inl (TypeError ''Cannot read properties of undefined (reading labels)'')
      | Some m \<Rightarrow> Inr
          \<lparr>r_metadata =
             \<lparr>md_name = md_name m,
              md_labels = AList.update ''managed-by'' ''mcp-devops-server''
                            (AList.update ''deployment-id'' deploymentId (md_labels m))\<rparr>,
           r_rest = d_rest d\<rparr>)"

text \<open>The block \<open>// Deploy Deployment\<close>: create, and on 409 replace.\<close>

definition applyDeployment ::
  "'s platform \<Rightarrow> string \<Rightarrow> string \<Rightarrow> descriptor \<Rightarrow> 's \<Rightarrow> (thrown + outcome) \<times> 's" where
  "applyDeployment api namespace deploymentId d s =
     (case stamp deploymentId d of
        Inl e \<Rightarrow> (Inl e, s)
      | Inr deployment \<Rightarrow>
          (case createNamespacedDeployment api namespace deployment s of
             (Inr u, s1) \<Rightarrow>
               (Inr \<lparr>o_type = ''deployment'', o_name = md_name (r_metadata deployment),
                     o_status = ''created''\<rparr>, s1)
           | (Inl error, s1) \<Rightarrow>
               if e_statusCode error = Some 409 then
                 (case replaceNamespacedDeployment api (md_name (r_metadata deployment))
                         namespace deployment s1 of
                    (Inr u, s2) \<Rightarrow>
                      (Inr \<lparr>o_type = ''deployment'', o_name = md_name (r_metadata deployment),
                            o_status = ''updated''\<rparr>, s2)
                  | (Inl error2, s2) \<Rightarrow> (Inl error2, s2))
               else (Inl error, s1)))"

text \<open>The block \<open>// Deploy Service\<close>: create, and on 409 report \<open>exists\<close>.\<close>

definition applyService ::
  "'s platform \<Rightarrow> string \<Rightarrow> string \<Rightarrow> descriptor \<Rightarrow> 's \<Rightarrow> (thrown + outcome) \<times> 's" where
  "applyService api namespace deploymentId d s =
     (case stamp deploymentId d of
        Inl e \<Rightarrow> (Inl e, s)
      | Inr service \<Rightarrow>
          (case createNamespacedService api namespace service s of
             (Inr u, s1) \<Rightarrow>
               (Inr \<lparr>o_type = ''service'', o_name = md_name (r_metadata service),
                     o_status = ''created''\<rparr>, s1)
           | (Inl error, s1) \<Rightarrow>
               if e_statusCode error = Some 409 then
                 (Inr \<lparr>o_type = ''service'', o_name = md_name (r_metadata service),
                       o_status = ''exists''\<rparr>, s1)
               else (Inl error, s1)))"

text \<open>The block \<open>// Deploy Ingress\<close>: create, and on 409 replace.\<close>

definition applyIngress ::
  "'s platform \<Rightarrow> string \<Rightarrow> string \<Rightarrow> descriptor \<Rightarrow> 's \<Rightarrow> (thrown + outcome) \<times> 's" where
  "applyIngress api namespace deploymentId d s =
     (case stamp deploymentId d of
        Inl e \<Rightarrow> (Inl e, s)
      | Inr ingress \<Rightarrow>
          (case createNamespacedIngress api namespace ingress s of
             (Inr u, s1) \<Rightarrow>
               (Inr \<lparr>o_type = ''ingress'', o_name = md_name (r_metadata ingress),
                     o_status = ''created''\<rparr>, s1)
           | (Inl error, s1) \<Rightarrow>
               if e_statusCode error = Some 409 then
                 (case replaceNamespacedIngress api (md_name (r_metadata ingress))
                         namespace ingress s1 of
                    (Inr u, s2) \<Rightarrow>
                      (Inr \<lparr>o_type = ''ingress'', o_name = md_name (r_metadata ingress),
                            o_status = ''updated''\<rparr>, s2)
                  | (Inl error2, s2) \<Rightarrow> (Inl error2, s2))
               else (Inl error, s1)))"

text \<open>
  \<open>if (kubernetesConfig.x) { ... deployedResources.push(...) }\<close>: a block is skipped when
  its descriptor is absent, and a throw inside it leaves the function (the outer
  \<open>catch\<close> logs and rethrows).
\<close>

definition block ::
  "'d option \<Rightarrow> ('d \<Rightarrow> 's \<Rightarrow> (thrown + outcome) \<times> 's) \<Rightarrow>
   (thrown + outcome list) \<times> 's \<Rightarrow> (thrown + outcome list) \<times> 's" where
  "block d f sofar =
     (case sofar of
        (Inl e, s) \<Rightarrow> (Inl e, s)
      | (Inr deployedResources, s) \<Rightarrow>
          (case d of
             None \<Rightarrow> (Inr deployedResources, s)
           | Some x \<Rightarrow>
               (case f x s of
                  (Inl e, s1) \<Rightarrow> (Inl e, s1)
                | (Inr pushed, s1) \<Rightarrow> (Inr (deployedResources @ [pushed]), s1))))"

definition deployToKubernetes ::
  "'s platform \<Rightarrow> kubernetes_config \<Rightarrow> string \<Rightarrow> string \<Rightarrow> string \<Rightarrow> 's \<Rightarrow>
   (thrown + outcome list) \<times> 's" where
  "deployToKubernetes api kubernetesConfig namespace appName deploymentId s =
     block (cfg_ingress kubernetesConfig) (applyIngress api namespace deploymentId)
       (block (cfg_service kubernetesConfig) (applyService api namespace deploymentId)
          (block (cfg_deployment kubernetesConfig) (applyDeployment api namespace deploymentId)
             (Inr [], s)))"


text \<open>\<open>x || 0\<close> for a count that may be \<open>undefined\<close>.\<close>

fun or0 :: "nat option \<Rightarrow> nat" where
  "or0 None = 0"
| "or0 (Some n) = n"

text \<open>\<open>deployment.status?.f\<close>\<close>

definition status_field :: "(deployment_status \<Rightarrow> 'a option) \<Rightarrow> deployment_body \<Rightarrow> 'a option" where
  "status_field f deployment = (case db_status deployment of None \<Rightarrow> None | Some st \<Rightarrow> f st)"

text \<open>
  The readiness wait. Its world is the sequence of its polls: the \<open>k\<close>-th call of
  \<open>readNamespacedDeployment\<close> takes \<open>p_latency\<close> milliseconds and resolves or throws as
  \<open>p_read\<close> says, and the \<open>sleep(5000)\<close> after it lasts 5000 milliseconds and
  \<open>p_overrun\<close> more (a timer fires no earlier than asked). \<open>elapsed\<close> is
  \<open>Date.now() - startTime\<close>.
\<close>

record poll =
  p_latency :: nat
  p_read :: "thrown + deployment_body"
  p_overrun :: nat

text \<open>\<open>readyReplicas === replicas && replicas > 0\<close>\<close>

definition isReady :: "deployment_body \<Rightarrow> bool" where
  "isReady deployment =
     (let readyReplicas = or0 (status_field ds_readyReplicas deployment);
          replicas = or0 (db_replicas deployment)
      in readyReplicas = replicas \<and> replicas > 0)"

text \<open>
  The \<open>while\<close> loop of \<open>waitForDeployment\<close>. It returns what the function returns or
  throws, the time elapsed then, and the number of polls made.
\<close>

function waitLoop ::
  "(nat \<Rightarrow> poll) \<Rightarrow> string \<Rightarrow> nat \<Rightarrow> nat \<Rightarrow> nat \<Rightarrow> (thrown + bool) \<times> nat \<times> nat" where
  "waitLoop env appName timeoutMs elapsed k =
     (if elapsed < timeoutMs then
        (case p_read (env k) of
           Inr deployment \<Rightarrow>
             if isReady deployment then (Inr True, elapsed + p_latency (env k), Suc k)
             else waitLoop env appName timeoutMs
                    (elapsed + p_latency (env k) + 5000 + p_overrun (env k)) (Suc k)
         | Inl error \<Rightarrow>
             waitLoop env appName timeoutMs
               (elapsed + p_latency (env k) + 5000 + p_overrun (env k)) (Suc k))
      else
        (Inl (Error (''Deployment '' @ appName @ '' did not become ready within ''
                       @ number_toString timeoutMs @ ''ms'')), elapsed, k))"
  by pat_completeness auto
termination
  by (relation "measure (\<lambda>(env, appName, timeoutMs, elapsed, k). timeoutMs - elapsed)") auto

declare waitLoop.simps [simp del]

text \<open>\<open>waitForDeployment(appName, namespace, timeoutMs = 300000)\<close>\<close>

definition waitForDeployment ::
  "(nat \<Rightarrow> poll) \<Rightarrow> string \<Rightarrow> string \<Rightarrow> nat option \<Rightarrow> (thrown + bool) \<times> nat \<times> nat" where
  "waitForDeployment env appName namespace timeoutMs =
     waitLoop env appName (case timeoutMs of None \<Rightarrow> 300000 | Some t \<Rightarrow> t) 0 0"

text \<open>\<open>a || b\<close> on strings that may be \<open>undefined\<close>.\<close>

definition or_else :: "string option \<Rightarrow> string option \<Rightarrow> string option" where
  "or_else a b = (if truthy a then a else b)"

text \<open>\<open>service.spec.ports?.[0]?.port || 80\<close>\<close>

definition first_port :: "service_spec \<Rightarrow> nat" where
  "first_port spec =
     (case ss_ports spec of
        Some (p # ps) \<Rightarrow> (case sp_port p of Some n \<Rightarrow> (if n = 0 then 80 else n) | None \<Rightarrow> 80)
      | _ \<Rightarrow> 80)"

text \<open>
  The inner \<open>try\<close> of \<open>getServiceUrl\<close>:
  \<open>ingress.spec?.rules?.[0]?.host\<close> and \<open>ingress.spec.tls ? 'https' : 'http'\<close>.
  An array is truthy, also the empty one.
\<close>

definition ingress_url :: "ingress_body \<Rightarrow> string option" where
  "ingress_url ingress =
     (case ib_spec ingress of
        None \<Rightarrow> None
      | Some spec \<Rightarrow>
          (case is_rules spec of
             Some (rule # rules) \<Rightarrow>
               (if truthy (ir_host rule) then
                  Some ((case is_tls spec of Some tls \<Rightarrow> ''https'' | None \<Rightarrow> ''http'')
                        @ ''://'' @ template (ir_host rule))
                else None)
           | _ \<Rightarrow> None))"

text \<open>The body of the outer \<open>try\<close> once the service has been read.\<close>

definition service_url :: "string \<Rightarrow> string \<Rightarrow> service_body \<Rightarrow> string" where
  "service_url appName namespace service =
     (case sb_spec service of
        None \<Rightarrow> ''http://'' @ appName @ ''-service.'' @ namespace @ ''.svc.cluster.local''
      | Some spec \<Rightarrow>
          (case (if ss_type spec = Some ''LoadBalancer''
                 then (case sb_status service of
                         None \<Rightarrow> None
                       | Some st \<Rightarrow>
                           (case st_loadBalancer_ingress st of
                              Some (lb # lbs) \<Rightarrow> Some lb
                            | _ \<Rightarrow> None))
                 else None) of
             Some lb \<Rightarrow>
               ''http://'' @ template (or_else (li_hostname lb) (li_ip lb)) @ '':''
                 @ number_toString (first_port spec)
           | None \<Rightarrow>
               (if truthy (ss_clusterIP spec) \<and> ss_clusterIP spec \<noteq> Some ''None''
                then ''http://'' @ template (ss_clusterIP spec) @ '':''
                       @ number_toString (first_port spec)
                else ''http://'' @ appName @ ''-service.'' @ namespace @ ''.svc.cluster.local'')))"

text \<open>
  \<open>getServiceUrl(appName, namespace, environment)\<close> of the deploy agent. An error of the
  ingress read is caught by the inner \<open>catch\<close> (empty), one of the service read by the
  outer \<open>catch\<close>, which returns the cluster-local name.
\<close>

definition getServiceUrl ::
  "'s platform \<Rightarrow> string \<Rightarrow> string \<Rightarrow> string \<Rightarrow> 's \<Rightarrow> (thrown + string) \<times> 's" where
  "getServiceUrl api appName namespace environment s =
     (case readNamespacedIngress api (appName @ ''-ingress'') namespace s of
        (ingressRead, s1) \<Rightarrow>
          (case (case ingressRead of Inr ingress \<Rightarrow> ingress_url ingress | Inl error \<Rightarrow> None) of
             Some url \<Rightarrow> (Inr url, s1)
           | None \<Rightarrow>
               (case readNamespacedService api (appName @ ''-service'') namespace s1 of
                  (Inr service, s2) \<Rightarrow> (Inr (service_url appName namespace service), s2)
                | (Inl error, s2) \<Rightarrow>
                    (Inr (''http://'' @ appName @ ''-service.'' @ namespace @ ''.svc.cluster.local''),
                     s2))))"

record rollback_result =
  rb_status :: string
  rb_message :: string

text \<open>\<open>rollback(deploymentId, namespace)\<close>\<close>

definition rollback ::
  "'s platform \<Rightarrow> string \<Rightarrow> string \<Rightarrow> 's \<Rightarrow> (thrown + rollback_result) \<times> 's" where
  "rollback api deploymentId namespace s =
     (case listNamespacedDeployment api namespace (''deployment-id='' @ deploymentId) s of
        (Inl error, s1) \<Rightarrow> (Inl error, s1)
      | (Inr items, s1) \<Rightarrow>
          (case items of
             [] \<Rightarrow> (Inl (Error (''No deployment found with ID '' @ deploymentId)), s1)
           | deployment # others \<Rightarrow>
               (case createNamespacedDeploymentRollback api (md_name (db_metadata deployment))
                       namespace (md_name (db_metadata deployment)) s1 of
                  (Inl error, s2) \<Rightarrow> (Inl error, s2)
                | (Inr u, s2) \<Rightarrow>
                    (Inr \<lparr>rb_status = ''success'',
                          rb_message = ''Deployment '' @ md_name (db_metadata deployment)
                                       @ '' rolled back successfully''\<rparr>, s2))))"

section \<open>MonitorAgent: lookup, collection and the campaign\<close>

text \<open>
  \<open>findDeploymentById(deploymentId, namespace)\<close>: \<open>deployments.items[0] || null\<close>, and
  \<open>null\<close> as well when the list call throws (the \<open>catch\<close> logs and returns \<open>null\<close>).
\<close>

definition findDeploymentById ::
  "'s platform \<Rightarrow> string \<Rightarrow> string \<Rightarrow> 's \<Rightarrow> deployment_body option \<times> 's" where
  "findDeploymentById api deploymentId namespace s =
     (case listNamespacedDeployment api namespace (''deployment-id='' @ deploymentId) s of
        (Inr items, s1) \<Rightarrow> ((case items of [] \<Rightarrow> None | deployment # others \<Rightarrow> Some deployment), s1)
      | (Inl error, s1) \<Rightarrow> (None, s1))"

text \<open>\<open>getDeploymentMetrics(appName, namespace)\<close>\<close>

definition getDeploymentMetrics ::
  "'s platform \<Rightarrow> string \<Rightarrow> string \<Rightarrow> 's \<Rightarrow> deployment_metrics measured \<times> 's" where
  "getDeploymentMetrics api appName namespace s =
     (case readNamespacedDeployment api appName namespace s of
        (Inr deployment, s1) \<Rightarrow>
          (Measured
             \<lparr>dm_replicas = or0 (db_replicas deployment),
              dm_ready_replicas = or0 (status_field ds_readyReplicas deployment),
              dm_available_replicas = or0 (status_field ds_availableReplicas deployment),
              dm_unavailable_replicas = or0 (status_field ds_unavailableReplicas deployment),
              dm_updated_replicas = or0 (status_field ds_updatedReplicas deployment),
              dm_conditions =
                (case status_field ds_conditions deployment of None \<Rightarrow> [] | Some cs \<Rightarrow> cs)\<rparr>, s1)
      | (Inl error, s1) \<Rightarrow> (Unavailable (e_message error), s1))"

text \<open>
  One entry of \<open>podMetrics\<close>. The four resource quantities of an entry
  (\<open>extractResourceValue\<close> of the first container's requests and limits) are left out:
  the report reads none of them.
\<close>

definition podEntry :: "pod_body \<Rightarrow> pod_entry" where
  "podEntry pod =
     \<lparr>pe_name = pb_name pod,
      pe_phase = pb_phase pod,
      pe_ready =
        (case pb_conditions pod of
           None \<Rightarrow> False
         | Some cs \<Rightarrow>
             (case find (\<lambda>c. fst c = ''Ready'') cs of
                None \<Rightarrow> False
              | Some c \<Rightarrow> snd c = ''True'')),
      pe_restarts = or0 (pb_restartCount pod)\<rparr>"

text \<open>\<open>getPodMetrics(appName, namespace)\<close>\<close>

definition getPodMetrics ::
  "'s platform \<Rightarrow> string \<Rightarrow> string \<Rightarrow> 's \<Rightarrow> pod_metrics measured \<times> 's" where
  "getPodMetrics api appName namespace s =
     (case listNamespacedPod api namespace (''app='' @ appName) s of
        (Inr items, s1) \<Rightarrow>
          (let podMetrics = map podEntry items in
           (Measured
              \<lparr>pm_total_pods = length items,
               pm_running_pods = length (filter (\<lambda>p. pe_phase p = Some ''Running'') podMetrics),
               pm_ready_pods = length (filter (\<lambda>p. pe_ready p) podMetrics),
               pm_pods = podMetrics\<rparr>, s1))
      | (Inl error, s1) \<Rightarrow> (Unavailable (e_message error), s1))"

text \<open>\<open>subsets?.[0]?.f?.length || 0\<close>\<close>

definition first_subset_count ::
  "(endpoint_subset \<Rightarrow> string list option) \<Rightarrow> endpoints_body \<Rightarrow> nat" where
  "first_subset_count f endpoints =
     (case eb_subsets endpoints of
        Some (sub # subs) \<Rightarrow> (case f sub of None \<Rightarrow> 0 | Some xs \<Rightarrow> length xs)
      | _ \<Rightarrow> 0)"

text \<open>\<open>getServiceEndpoints(appName, namespace)\<close>\<close>

definition getServiceEndpoints ::
  "'s platform \<Rightarrow> string \<Rightarrow> string \<Rightarrow> 's \<Rightarrow> endpoint_metrics measured \<times> 's" where
  "getServiceEndpoints api appName namespace s =
     (case readNamespacedEndpoints api (appName @ ''-service'') namespace s of
        (Inr endpoints, s1) \<Rightarrow>
          (Measured
             \<lparr>em_ready_addresses = first_subset_count es_addresses endpoints,
              em_not_ready_addresses = first_subset_count es_notReadyAddresses endpoints\<rparr>, s1)
      | (Inl error, s1) \<Rightarrow> (Unavailable (e_message error), s1))"

text \<open>\<open>getServiceMetrics(appName, namespace)\<close>\<close>

definition getServiceMetrics ::
  "'s platform \<Rightarrow> string \<Rightarrow> string \<Rightarrow> 's \<Rightarrow> service_metrics measured \<times> 's" where
  "getServiceMetrics api appName namespace s =
     (case readNamespacedService api (appName @ ''-service'') namespace s of
        (Inr service, s1) \<Rightarrow>
          (case getServiceEndpoints api appName namespace s1 of
             (endpoints, s2) \<Rightarrow>
               (Measured
                  \<lparr>sm_type = (case sb_spec service of None \<Rightarrow> None | Some spec \<Rightarrow> ss_type spec),
                   sm_cluster_ip =
                     (case sb_spec service of None \<Rightarrow> None | Some spec \<Rightarrow> ss_clusterIP spec),
                   sm_ports =
                     (case sb_spec service of
                        None \<Rightarrow> []
                      | Some spec \<Rightarrow> (case ss_ports spec of None \<Rightarrow> [] | Some ps \<Rightarrow> ps)),
                   sm_endpoints = endpoints\<rparr>, s2))
      | (Inl error, s1) \<Rightarrow> (Unavailable (e_message error), s1))"

text \<open>
  \<open>getServiceUrl(appName, namespace)\<close> of the monitor agent: the cluster address of the
  service, or \<open>null\<close>.
\<close>

definition monitor_getServiceUrl ::
  "'s platform \<Rightarrow> string \<Rightarrow> string \<Rightarrow> 's \<Rightarrow> string option \<times> 's" where
  "monitor_getServiceUrl api appName namespace s =
     (case readNamespacedService api (appName @ ''-service'') namespace s of
        (Inr service, s1) \<Rightarrow>
          (case sb_spec service of
             None \<Rightarrow> (None, s1)
           | Some spec \<Rightarrow>
               (if truthy (ss_clusterIP spec) \<and> ss_clusterIP spec \<noteq> Some ''None''
                then (Some (''http://'' @ template (ss_clusterIP spec) @ '':''
                              @ number_toString (first_port spec)), s1)
                else (None, s1)))
      | (Inl error, s1) \<Rightarrow> (None, s1))"

text \<open>
  \<open>performHealthCheck(appName, namespace)\<close>. \<open>axios.get\<close> is called with
  \<open>validateStatus: () => true\<close>, so it resolves for every status code and throws only when
  no response arrives (connection refused, the 5 second timeout).
\<close>

definition performHealthCheck ::
  "'s platform \<Rightarrow> string \<Rightarrow> string \<Rightarrow> 's \<Rightarrow> health_result \<times> 's" where
  "performHealthCheck api appName namespace s =
     (case monitor_getServiceUrl api appName namespace s of
        (serviceUrl, s1) \<Rightarrow>
          if \<not> truthy serviceUrl then
            (\<lparr>h_status = ''unknown'', h_status_code = None, h_response_time = None,
              h_message = ''Service URL not available''\<rparr>, s1)
          else
            (case axios_get api (template serviceUrl @ ''/health'') s1 of
               (Inr response, s2) \<Rightarrow>
                 (\<lparr>h_status = (if resp_status response = 200 then ''healthy'' else ''unhealthy''),
                   h_status_code = Some (resp_status response),
                   h_response_time =
                     or_else (map_of (resp_headers response) ''x-response-time'') (Some ''unknown''),
                   h_message =
                     (if resp_status response = 200 then ''Health check passed''
                      else ''Health check failed'')\<rparr>, s2)
             | (Inl error, s2) \<Rightarrow>
                 (\<lparr>h_status = ''unhealthy'', h_status_code = None, h_response_time = None,
                   h_message = ''Health check failed: '' @ e_message error\<rparr>, s2)))"

text \<open>\<open>collectMetrics(appName, namespace)\<close>: the four getters in turn. None of them throws.\<close>

definition collectMetrics ::
  "'s platform \<Rightarrow> string \<Rightarrow> string \<Rightarrow> 's \<Rightarrow> (thrown + collected) \<times> 's" where
  "collectMetrics api appName namespace s =
     (case getDeploymentMetrics api appName namespace s of
        (deployment, s1) \<Rightarrow>
          (case getPodMetrics api appName namespace s1 of
             (pods, s2) \<Rightarrow>
               (case getServiceMetrics api appName namespace s2 of
                  (service, s3) \<Rightarrow>
                    (case performHealthCheck api appName namespace s3 of
                       (health, s4) \<Rightarrow>
                         (Inr \<lparr>c_deployment = deployment, c_pods = pods, c_service = service,
                               c_health = health\<rparr>, s4)))))"

text \<open>
  The \<open>for\<close> loop of \<open>performMonitoring\<close>. \<open>collect\<close> is \<open>this.collectMetrics\<close>; the loop
  is written for any collector, so that the \<open>catch\<close> branch has a meaning.
\<close>

function monitoringLoop ::
  "'s runtime \<Rightarrow> (string \<Rightarrow> string \<Rightarrow> 's \<Rightarrow> (thrown + collected) \<times> 's) \<Rightarrow> string \<Rightarrow> string \<Rightarrow>
   int \<Rightarrow> int \<Rightarrow> sample list \<Rightarrow> 's \<Rightarrow> sample list \<times> 's" where
  "monitoringLoop rt collect appName namespace iterations i results s =
     (if i < iterations then
        (let timestamp = toISOString rt s in
         case collect appName namespace s of
           (Inr collected, s1) \<Rightarrow>
             monitoringLoop rt collect appName namespace iterations (i + 1)
               (results @ [Sample timestamp collected])
               (if i < iterations - 1 then sleep rt (30 * 1000) s1 else s1)
         | (Inl error, s1) \<Rightarrow>
             monitoringLoop rt collect appName namespace iterations (i + 1)
               (results @ [FailedSample (toISOString rt s1) (e_message error)]) s1)
      else (results, s))"
  by pat_completeness auto
termination
  by (relation "measure (\<lambda>(rt, collect, appName, namespace, iterations, i, results, s).
        nat (iterations - i))") auto

declare monitoringLoop.simps [simp del]

text \<open>
  \<open>performMonitoring(appName, namespace, durationSeconds)\<close>, with
  \<open>iterations = Math.floor(durationSeconds / 30)\<close> for a whole number of seconds.
\<close>

definition performMonitoring ::
  "'s runtime \<Rightarrow> (string \<Rightarrow> string \<Rightarrow> 's \<Rightarrow> (thrown + collected) \<times> 's) \<Rightarrow> string \<Rightarrow> string \<Rightarrow>
   int \<Rightarrow> 's \<Rightarrow> sample list \<times> 's" where
  "performMonitoring rt collect appName namespace durationSeconds s =
     (let monitoringInterval = 30;
          iterations = durationSeconds div monitoringInterval
      in monitoringLoop rt collect appName namespace iterations 0 [] s)"

text \<open>\<open>generateDashboardUrl(appName, namespace)\<close>\<close>

definition generateDashboardUrl :: "'s runtime \<Rightarrow> string \<Rightarrow> string \<Rightarrow> string" where
  "generateDashboardUrl rt appName namespace =
     template (or_else (GRAFANA_URL rt) (Some ''http://grafana.monitoring.svc.cluster.local''))
       @ ''/d/kubernetes-deployment?var-deployment='' @ appName @ ''&var-namespace='' @ namespace"

record monitor_params =
  p_deployment_id :: string
  p_environment :: "string option"
  p_monitoring_duration :: "int option"
  p_namespace :: "string option"

record monitor_result =
  res_deployment_id :: string
  res_monitoring_status :: string
  res_duration :: int
  res_health_status :: string
  res_metrics :: "report_metrics option"
  res_alerts :: "string list"
  res_recommendations :: "string list"
  res_dashboard_url :: string

text \<open>
  \<open>monitor(params)\<close>, with the defaults of the destructuring: \<open>environment = 'staging'\<close>,
  \<open>monitoring_duration = 300\<close>, \<open>namespace = environment\<close>.
\<close>

definition monitor ::
  "'s platform \<Rightarrow> 's runtime \<Rightarrow> monitor_params \<Rightarrow> 's \<Rightarrow> (thrown + monitor_result) \<times> 's" where
  "monitor api rt params s =
     (let deployment_id = p_deployment_id params;
          environment = (case p_environment params of None \<Rightarrow> ''staging'' | Some e \<Rightarrow> e);
          monitoring_duration = (case p_monitoring_duration params of None \<Rightarrow> 300 | Some d \<Rightarrow> d);
          namespace = (case p_namespace params of None \<Rightarrow> environment | Some n \<Rightarrow> n)
      in case findDeploymentById api deployment_id namespace s of
           (None, s1) \<Rightarrow>
             (Inl (Error (''Deployment with ID '' @ deployment_id @ '' not found'')), s1)
         | (Some deployment, s1) \<Rightarrow>
             (let appName = md_name (db_metadata deployment) in
              case performMonitoring rt (collectMetrics api) appName namespace
                     monitoring_duration s1 of
                (monitoringResults, s2) \<Rightarrow>
                  (let report = generateMonitoringReport appName namespace monitoringResults in
                   (Inr \<lparr>res_deployment_id = deployment_id,
                         res_monitoring_status = ''completed'',
                         res_duration = monitoring_duration,
                         res_health_status = overall_health report,
                         res_metrics = metrics report,
                         res_alerts = alerts report,
                         res_recommendations = recommendations report,
                         res_dashboard_url = generateDashboardUrl rt appName namespace\<rparr>, s2))))"

section \<open>A reference cluster\<close>

text \<open>
  The contract of the cluster API on an in-memory store: a create of a name that exists in
  the namespace fails with status 409 and changes nothing, a replace of a name that does
  not exist fails with status 404, a list returns the objects of the namespace whose labels
  satisfy the selector, in creation order, and a rollback request is recorded. The store
  keeps the documents as they were sent; it reports no replica status and runs no pods.
\<close>

type_synonym store = "((string \<times> string) \<times> resource) list"

record cluster =
  deployments :: store
  services :: store
  ingresses :: store
  rollbacks :: "(string \<times> string) list"

definition conflict :: thrown where
  "conflict = \<lparr>e_name = ''HttpError'', e_statusCode = Some 409, e_message = ''HTTP request failed''\<rparr>"

definition not_found :: thrown where
  "not_found = \<lparr>e_name = ''HttpError'', e_statusCode = Some 404, e_message = ''HTTP request failed''\<rparr>"

definition store_create :: "string \<Rightarrow> resource \<Rightarrow> store \<Rightarrow> thrown + store" where
  "store_create namespace r st =
     (if map_of st (namespace, md_name (r_metadata r)) = None
      then Inr (st @ [((namespace, md_name (r_metadata r)), r)])
      else Inl conflict)"

definition store_replace :: "string \<Rightarrow> string \<Rightarrow> resource \<Rightarrow> store \<Rightarrow> thrown + store" where
  "store_replace name namespace r st =
     (if map_of st (namespace, name) = None then Inl not_found
      else Inr (AList.update (namespace, name) r st))"

definition selects :: "string \<Rightarrow> (string \<times> string) list \<Rightarrow> bool" where
  "selects labelSelector labels = list_ex (\<lambda>(k, v). k @ ''='' @ v = labelSelector) labels"

definition body_of :: "resource \<Rightarrow> deployment_body" where
  "body_of r = \<lparr>db_metadata = r_metadata r, db_replicas = None, db_status = None\<rparr>"

definition store_list :: "string \<Rightarrow> string \<Rightarrow> store \<Rightarrow> resource list" where
  "store_list namespace labelSelector st =
     map snd (filter (\<lambda>(key, r). fst key = namespace \<and> selects labelSelector (md_labels (r_metadata r))) st)"

definition reference_cluster :: "cluster platform" where
  "reference_cluster =
     \<lparr>createNamespacedDeployment = (\<lambda>namespace r c.
        case store_create namespace r (deployments c) of
          Inl e \<Rightarrow> (Inl e, c) | Inr st \<Rightarrow> (Inr (), c\<lparr>deployments := st\<rparr>)),
      replaceNamespacedDeployment = (\<lambda>name namespace r c.
        case store_replace name namespace r (deployments c) of
          Inl e \<Rightarrow> (Inl e, c) | Inr st \<Rightarrow> (Inr (), c\<lparr>deployments := st\<rparr>)),
      readNamespacedDeployment = (\<lambda>name namespace c.
        case map_of (deployments c) (namespace, name) of
          None \<Rightarrow> (Inl not_found, c) | Some r \<Rightarrow> (Inr (body_of r), c)),
      listNamespacedDeployment = (\<lambda>namespace labelSelector c.
        (Inr (map body_of (store_list namespace labelSelector (deployments c))), c)),
      createNamespacedDeploymentRollback = (\<lambda>name namespace body c.
        if map_of (deployments c) (namespace, name) = None then (Inl not_found, c)
        else (Inr (), c\<lparr>rollbacks := rollbacks c @ [(namespace, name)]\<rparr>)),
      createNamespacedService = (\<lambda>namespace r c.
        case store_create namespace r (services c) of
          Inl e \<Rightarrow> (Inl e, c) | Inr st \<Rightarrow> (Inr (), c\<lparr>services := st\<rparr>)),
      readNamespacedService = (\<lambda>name namespace c.
        case map_of (services c) (namespace, name) of
          None \<Rightarrow> (Inl not_found, c) | Some r \<Rightarrow> (Inr \<lparr>sb_spec = None, sb_status = None\<rparr>, c)),
      listNamespacedPod = (\<lambda>namespace labelSelector c. (Inr [], c)),
      readNamespacedEndpoints = (\<lambda>name namespace c. (Inl not_found, c)),
      createNamespacedIngress = (\<lambda>namespace r c.
        case store_create namespace r (ingresses c) of
          Inl e \<Rightarrow> (Inl e, c) | Inr st \<Rightarrow> (Inr (), c\<lparr>ingresses := st\<rparr>)),
      replaceNamespacedIngress = (\<lambda>name namespace r c.
        case store_replace name namespace r (ingresses c) of
          Inl e \<Rightarrow> (Inl e, c) | Inr st \<Rightarrow> (Inr (), c\<lparr>ingresses := st\<rparr>)),
      readNamespacedIngress = (\<lambda>name namespace c.
        case map_of (ingresses c) (namespace, name) of
          None \<Rightarrow> (Inl not_found, c) | Some r \<Rightarrow> (Inr \<lparr>ib_spec = None\<rparr>, c)),
      axios_get = (\<lambda>url c. (Inl (Error ''connect ECONNREFUSED''), c))\<rparr>"

definition empty_cluster :: cluster where
  "empty_cluster = \<lparr>deployments = [], services = [], ingresses = [], rollbacks = []\<rparr>"

text \<open>A platform on which every call throws, to be overridden call by call.\<close>

definition unreachable :: thrown where
  "unreachable = \<lparr>e_name = ''Error'', e_statusCode = None, e_message = ''connect ECONNREFUSED''\<rparr>"

definition offline :: "unit platform" where
  "offline =
     \<lparr>createNamespacedDeployment = (\<lambda>namespace r s. (Inl unreachable, s)),
      replaceNamespacedDeployment = (\<lambda>name namespace r s. (Inl unreachable, s)),
      readNamespacedDeployment = (\<lambda>name namespace s. (Inl unreachable, s)),
      listNamespacedDeployment = (\<lambda>namespace labelSelector s. (Inl unreachable, s)),
      createNamespacedDeploymentRollback = (\<lambda>name namespace body s. (Inl unreachable, s)),
      createNamespacedService = (\<lambda>namespace r s. (Inl unreachable, s)),
      readNamespacedService = (\<lambda>name namespace s. (Inl unreachable, s)),
      listNamespacedPod = (\<lambda>namespace labelSelector s. (Inl unreachable, s)),
      readNamespacedEndpoints = (\<lambda>name namespace s. (Inl unreachable, s)),
      createNamespacedIngress = (\<lambda>namespace r s. (Inl unreachable, s)),
      replaceNamespacedIngress = (\<lambda>name namespace r s. (Inl unreachable, s)),
      readNamespacedIngress = (\<lambda>name namespace s. (Inl unreachable, s)),
      axios_get = (\<lambda>url s. (Inl unreachable, s))\<rparr>"

section \<open>Notions the properties are stated with\<close>

text \<open>
  The ready-replica count and the running-pod count a sample reports, when its deployment
  and pod getters succeeded, and the arithmetic mean of a list of counts (0 for the empty
  list, as \<open>calculateAverage\<close> has it).
\<close>

fun ready_replicas_of :: "sample \<Rightarrow> nat option" where
  "ready_replicas_of (Sample ts m) =
     (case c_deployment m of Measured d \<Rightarrow> Some (dm_ready_replicas d) | Unavailable e \<Rightarrow> None)"
| "ready_replicas_of (FailedSample ts msg) = None"

fun running_pods_of :: "sample \<Rightarrow> nat option" where
  "running_pods_of (Sample ts m) =
     (case c_pods m of Measured p \<Rightarrow> Some (pm_running_pods p) | Unavailable e \<Rightarrow> None)"
| "running_pods_of (FailedSample ts msg) = None"

definition mean :: "nat list \<Rightarrow> rat" where
  "mean xs = (if xs = [] then 0 else of_nat (sum_list xs) / of_nat (length xs))"

text \<open>
  The hosts an ingress declares, in rule order: the reading of "has at least one host rule"
  and "the first declared host" that looks at every rule.
\<close>

definition declared_hosts :: "ingress_body \<Rightarrow> string list" where
  "declared_hosts ingress =
     (case ib_spec ingress of
        None \<Rightarrow> []
      | Some spec \<Rightarrow>
          (case is_rules spec of
             None \<Rightarrow> []
           | Some rules \<Rightarrow> map template (filter truthy (map ir_host rules))))"

text \<open>The scheme the claim gives an ingress: \<open>https\<close> with TLS configured, else \<open>http\<close>.\<close>

definition scheme_of :: "ingress_body \<Rightarrow> string" where
  "scheme_of ingress =
     (case ib_spec ingress of
        None \<Rightarrow> ''http''
      | Some spec \<Rightarrow> (case is_tls spec of None \<Rightarrow> ''http'' | Some tls \<Rightarrow> ''https''))"

text \<open>
  A configuration whose descriptors all carry \<open>metadata\<close> (each is a named document), and a
  cluster in which none of their names is taken in the namespace.
\<close>

fun named :: "descriptor option \<Rightarrow> bool" where
  "named None = True"
| "named (Some d) = (d_metadata d \<noteq> None)"

fun fresh :: "store \<Rightarrow> string \<Rightarrow> descriptor option \<Rightarrow> bool" where
  "fresh st namespace None = True"
| "fresh st namespace (Some d) =
     (case d_metadata d of None \<Rightarrow> True | Some m \<Rightarrow> map_of st (namespace, md_name m) = None)"

text \<open>The statuses of one application of a configuration: one per descriptor present.\<close>

definition statuses :: "string \<Rightarrow> string \<Rightarrow> string \<Rightarrow> kubernetes_config \<Rightarrow> string list" where
  "statuses forDeployment forService forIngress kubernetesConfig =
     (case cfg_deployment kubernetesConfig of None \<Rightarrow> [] | Some d \<Rightarrow> [forDeployment]) @
     (case cfg_service kubernetesConfig of None \<Rightarrow> [] | Some d \<Rightarrow> [forService]) @
     (case cfg_ingress kubernetesConfig of None \<Rightarrow> [] | Some d \<Rightarrow> [forIngress])"

text \<open>The namespace \<open>monitor\<close> works in: \<open>namespace\<close>, else \<open>environment\<close>, else \<open>staging\<close>.\<close>

definition namespace_of :: "monitor_params \<Rightarrow> string" where
  "namespace_of params =
     (case p_namespace params of
        None \<Rightarrow> (case p_environment params of None \<Rightarrow> ''staging'' | Some e \<Rightarrow> e)
      | Some n \<Rightarrow> n)"

text \<open>
  A poll observes convergence when its read resolves and the deployment is ready. The
  \<open>k\<close>-th poll starts \<open>poll_start env k\<close> milliseconds after the wait began, as long as no
  earlier poll ended the wait.
\<close>

definition observes_ready :: "poll \<Rightarrow> bool" where
  "observes_ready p = (case p_read p of Inr deployment \<Rightarrow> isReady deployment | Inl error \<Rightarrow> False)"

fun poll_start :: "(nat \<Rightarrow> poll) \<Rightarrow> nat \<Rightarrow> nat" where
  "poll_start env 0 = 0"
| "poll_start env (Suc k) = poll_start env k + p_latency (env k) + 5000 + p_overrun (env k)"

text \<open>The deadline in force: the argument, or 300000 milliseconds.\<close>

definition deadline :: "nat option \<Rightarrow> nat" where
  "deadline timeoutMs = (case timeoutMs of None \<Rightarrow> 300000 | Some t \<Rightarrow> t)"

text \<open>
  What a campaign does, in order: a collection that resolved, one that threw (with the
  message), a sleep of so many milliseconds. \<open>traced_collect\<close> and \<open>traced_runtime\<close> run
  any collector and any runtime unchanged and write each collection and each sleep to
  a log carried beside the state.
\<close>

datatype event = Resolved | Threw string | Slept nat

definition traced_collect ::
  "(string \<Rightarrow> string \<Rightarrow> 's \<Rightarrow> (thrown + collected) \<times> 's) \<Rightarrow>
   string \<Rightarrow> string \<Rightarrow> 's \<times> event list \<Rightarrow> (thrown + collected) \<times> 's \<times> event list" where
  "traced_collect collect appName namespace st =
     (case st of
        (s, events) \<Rightarrow>
          (case collect appName namespace s of
             (Inr collected, s1) \<Rightarrow> (Inr collected, s1, events @ [Resolved])
           | (Inl error, s1) \<Rightarrow> (Inl error, s1, events @ [Threw (e_message error)])))"

definition traced_runtime :: "'s runtime \<Rightarrow> ('s \<times> event list) runtime" where
  "traced_runtime rt =
     \<lparr>sleep = (\<lambda>ms st. case st of (s, events) \<Rightarrow> (sleep rt ms s, events @ [Slept ms])),
      toISOString = (\<lambda>st. toISOString rt (fst st)),
      GRAFANA_URL = GRAFANA_URL rt\<rparr>"

text \<open>The error field of the sample each collection of a log gives rise to.\<close>

fun outcomes :: "event list \<Rightarrow> string option list" where
  "outcomes [] = []"
| "outcomes (Resolved # es) = None # outcomes es"
| "outcomes (Threw msg # es) = Some msg # outcomes es"
| "outcomes (Slept ms # es) = outcomes es"

text \<open>
  A log in which the runner sleeps between iterations only: it does not begin with a
  sleep, every sleep lasts 30000 milliseconds and is followed by a collection, and so the
  log does not end with a sleep.
\<close>

fun is_sleep :: "event \<Rightarrow> bool" where
  "is_sleep (Slept ms) = True"
| "is_sleep e = False"

fun sleeps_between :: "event list \<Rightarrow> bool" where
  "sleeps_between [] = True"
| "sleeps_between (Slept ms # es) = False"
| "sleeps_between [e] = True"
| "sleeps_between (e # Slept ms # es) = (ms = 30000 \<and> es \<noteq> [] \<and> sleeps_between es)"
| "sleeps_between (e # e' # es) = sleeps_between (e' # es)"

section \<open>Concrete inputs\<close>

definition probe :: "string \<Rightarrow> nat \<Rightarrow> health_result" where
  "probe st code =
     \<lparr>h_status = st, h_status_code = Some code, h_response_time = Some ''unknown'',
      h_message = (if code = 200 then ''Health check passed'' else ''Health check failed'')\<rparr>"

definition fixture_sample :: "nat \<Rightarrow> nat \<Rightarrow> string \<Rightarrow> sample" where
  "fixture_sample ready running st = Sample ''2024-01-01T00:00:00.000Z''
     \<lparr>c_deployment = Measured
        \<lparr>dm_replicas = 2, dm_ready_replicas = ready, dm_available_replicas = ready,
         dm_unavailable_replicas = 0, dm_updated_replicas = 2, dm_conditions = []\<rparr>,
      c_pods = Measured
        \<lparr>pm_total_pods = 2, pm_running_pods = running, pm_ready_pods = running, pm_pods = []\<rparr>,
      c_service = Unavailable ''service not found'',
      c_health = (if st = ''healthy'' then probe st 200 else probe st 503)\<rparr>"

text \<open>A campaign of \<open>h\<close> samples with a healthy probe followed by \<open>u\<close> with a failed one.\<close>

definition campaign :: "nat \<Rightarrow> nat \<Rightarrow> sample list" where
  "campaign h u =
     replicate h (fixture_sample 2 2 ''healthy'') @ replicate u (fixture_sample 2 2 ''unhealthy'')"

text \<open>
  An ingress with host \<open>a.example.com\<close> and TLS, a LoadBalancer service with external host
  \<open>b.example.com\<close>, and an ingress whose first rule names no host (it matches every host)
  and whose second rule names \<open>a.example.com\<close>.
\<close>

definition tls_ingress :: ingress_body where
  "tls_ingress =
     \<lparr>ib_spec = Some \<lparr>is_rules = Some [\<lparr>ir_host = Some ''a.example.com''\<rparr>],
                      is_tls = Some [''a-example-com-tls'']\<rparr>\<rparr>"

definition hostless_first_ingress :: ingress_body where
  "hostless_first_ingress =
     \<lparr>ib_spec = Some \<lparr>is_rules = Some [\<lparr>ir_host = None\<rparr>, \<lparr>ir_host = Some ''a.example.com''\<rparr>],
                      is_tls = Some [''a-example-com-tls'']\<rparr>\<rparr>"

definition lb_service :: service_body where
  "lb_service =
     \<lparr>sb_spec = Some \<lparr>ss_type = Some ''LoadBalancer'', ss_clusterIP = Some ''10.0.0.7'',
                      ss_ports = Some [\<lparr>sp_port = Some 80\<rparr>]\<rparr>,
      sb_status = Some \<lparr>st_loadBalancer_ingress =
                          Some [\<lparr>li_hostname = Some ''b.example.com'', li_ip = None\<rparr>]\<rparr>\<rparr>"

text \<open>A platform whose ingress and service reads resolve to the given objects.\<close>

definition serving :: "ingress_body \<Rightarrow> service_body \<Rightarrow> unit platform" where
  "serving ingress service =
     offline\<lparr>readNamespacedIngress := (\<lambda>name namespace s. (Inr ingress, s)),
             readNamespacedService := (\<lambda>name namespace s. (Inr service, s))\<rparr>"

text \<open>The descriptors of \<open>acme-shop\<close> one by one, and stamped with an identifier.\<close>

definition shop_deployment :: descriptor where
  "shop_deployment =
     \<lparr>d_metadata = Some \<lparr>md_name = ''acme-shop'', md_labels = [(''app'', ''acme-shop'')]\<rparr>,
      d_rest = ''spec: replicas 2, image acme/shop:1.4.2''\<rparr>"

definition shop_service :: descriptor where
  "shop_service =
     \<lparr>d_metadata = Some \<lparr>md_name = ''acme-shop-service'', md_labels = []\<rparr>,
      d_rest = ''spec: type ClusterIP, port 80''\<rparr>"

definition shop_ingress :: descriptor where
  "shop_ingress =
     \<lparr>d_metadata = Some \<lparr>md_name = ''acme-shop-ingress'', md_labels = []\<rparr>,
      d_rest = ''spec: host shop.example.com''\<rparr>"

definition stamped :: "string \<Rightarrow> descriptor \<Rightarrow> resource" where
  "stamped deploymentId d =
     (case stamp deploymentId d of
        Inr r \<Rightarrow> r
      | Inl e \<Rightarrow> \<lparr>r_metadata = \<lparr>md_name = [], md_labels = []\<rparr>, r_rest = d_rest d\<rparr>)"

definition shop_config :: kubernetes_config where
  "shop_config =
     \<lparr>cfg_deployment = Some shop_deployment,
      cfg_service = Some shop_service,
      cfg_ingress = Some shop_ingress\<rparr>"

text \<open>The reference cluster after \<open>acme-shop\<close> was deployed once, with correlation identifier \<open>7f3c\<close>.\<close>

definition deployed_once :: cluster where
  "deployed_once =
     snd (deployToKubernetes reference_cluster shop_config ''staging'' ''acme-shop'' ''7f3c''
            empty_cluster)"

text \<open>
  A cluster API whose list call fails with an internal server error, a runtime whose
  clock stands still, and the request to monitor the deployment \<open>7f3c\<close>.
\<close>

definition internal_error :: thrown where
  "internal_error =
     \<lparr>e_name = ''HttpError'', e_statusCode = Some 500, e_message = ''HTTP request failed''\<rparr>"

definition failing_list :: "unit platform" where
  "failing_list =
     offline\<lparr>listNamespacedDeployment := (\<lambda>namespace labelSelector s. (Inl internal_error, s))\<rparr>"

definition still_clock :: "'s runtime" where
  "still_clock =
     \<lparr>sleep = (\<lambda>ms s. s), toISOString = (\<lambda>s. ''2024-01-01T00:00:00.000Z''), GRAFANA_URL = None\<rparr>"

definition monitor_7f3c :: monitor_params where
  "monitor_7f3c =
     \<lparr>p_deployment_id = ''7f3c'', p_environment = None, p_monitoring_duration = None,
      p_namespace = None\<rparr>"

text \<open>
  A platform on which the service has a cluster address and the probe is answered with
  the given status code, or not at all.
\<close>

definition answering :: "nat option \<Rightarrow> unit platform" where
  "answering code =
     offline\<lparr>readNamespacedService := (\<lambda>name namespace s. (Inr lb_service, s)),
             axios_get := (\<lambda>url s.
               case code of
                 None \<Rightarrow> (Inl (Error ''timeout of 5000ms exceeded''), s)
               | Some n \<Rightarrow> (Inr \<lparr>resp_status = n, resp_headers = []\<rparr>, s))\<rparr>"

text \<open>
  A deployment with one of two replicas ready and one with both ready; a world in which
  the reads fail and report one of two replicas by turns, forever; and a world in which the
  first read fails, the second reports one of two and the third reports two of two.
\<close>

definition rolling_body :: "nat \<Rightarrow> deployment_body" where
  "rolling_body ready =
     \<lparr>db_metadata = \<lparr>md_name = ''acme-shop'', md_labels = []\<rparr>,
      db_replicas = Some 2,
      db_status = Some \<lparr>ds_readyReplicas = Some ready, ds_availableReplicas = Some ready,
                        ds_unavailableReplicas = None, ds_updatedReplicas = Some 2,
                        ds_conditions = None\<rparr>\<rparr>"

definition never_ready :: "nat \<Rightarrow> poll" where
  "never_ready k =
     \<lparr>p_latency = 0,
      p_read = (if even k then Inl unreachable else Inr (rolling_body 1)),
      p_overrun = 0\<rparr>"

definition ready_on_third :: "nat \<Rightarrow> poll" where
  "ready_on_third k =
     \<lparr>p_latency = 40,
      p_read = (if k = 0 then Inl unreachable
                else if k = 1 then Inr (rolling_body 1)
                else Inr (rolling_body 2)),
      p_overrun = 3\<rparr>"

text \<open>
  A collector that throws on every second call (the state counts the calls) and
  resolves with fixed measurements otherwise.
\<close>

definition fixed_measurements :: collected where
  "fixed_measurements =
     \<lparr>c_deployment = Unavailable ''deployment not found'',
      c_pods = Unavailable ''pods not listed'',
      c_service = Unavailable ''service not found'',
      c_health = probe ''healthy'' 200\<rparr>"

definition flaky_collect :: "string \<Rightarrow> string \<Rightarrow> nat \<Rightarrow> (thrown + collected) \<times> nat" where
  "flaky_collect appName namespace calls =
     (if even calls then (Inr fixed_measurements, Suc calls)
      else (Inl (Error ''socket hang up''), Suc calls))"

section \<open>Health Aggregator\<close>

lemma number_ready:
  "number_of (getNestedValue (sample_object r) ''deployment.ready_replicas'') =
   map_option of_nat (ready_replicas_of r)"
  by (cases r) (simp_all add: getNestedValue_def deployment_object_def split: measured.splits)

lemma number_pods:
  "number_of (getNestedValue (sample_object r) ''pods.running_pods'') =
   map_option of_nat (running_pods_of r)"
  by (cases r) (simp_all add: getNestedValue_def pods_object_def split: measured.splits)

lemma foldl_plus: "foldl (\<lambda>sum val. sum + val) a xs = a + sum_list (xs :: rat list)"
  by (induction xs arbitrary: a) (simp_all add: add.assoc)

lemma map_filter_map_option:
  "List.map_filter (\<lambda>r. map_option f (g r)) xs = map f (List.map_filter g xs)"
  by (induction xs) (simp_all add: List.map_filter_simps split: option.splits)

lemma sum_list_of_nat: "sum_list (map of_nat xs) = (of_nat (sum_list xs) :: rat)"
  by (induction xs) simp_all

text \<open>
  \<open>calculateAverage\<close> at the two paths the report uses is the mean of the counts that the
  samples report.
\<close>

lemma average_ready:
  "calculateAverage rs ''deployment.ready_replicas'' = mean (List.map_filter ready_replicas_of rs)"
  by (simp add: calculateAverage_def number_ready map_filter_map_option foldl_plus
      sum_list_of_nat mean_def Let_def)

lemma average_pods:
  "calculateAverage rs ''pods.running_pods'' = mean (List.map_filter running_pods_of rs)"
  by (simp add: calculateAverage_def number_pods map_filter_map_option foldl_plus
      sum_list_of_nat mean_def Let_def)

lemma valid_campaign: "validResults (campaign h u) = campaign h u"
  by (simp add: validResults_def campaign_def fixture_sample_def)

lemma rate_campaign: "healthPercentage (campaign h u) = of_nat h / of_nat (h + u) * 100"
  by (simp add: healthPercentage_def healthyChecks_def campaign_def fixture_sample_def probe_def)

text \<open>
  C4. When at least one sample is valid, the verdict is \<open>healthy\<close> exactly when the
  health-check success rate is at least 90, \<open>warning\<close> exactly when it is at least 70 and
  below 90, and \<open>unhealthy\<close> exactly when it is below 70. Independently, the alert on
  replicas is emitted exactly when the mean ready-replica count is below 1, the alert on
  pods exactly when the mean running-pod count is below 1, the alert on the success rate
  exactly when the rate is below 80, and no other alert; the recommendation to raise the
  replica count exactly when the mean ready-replica count is below 2, the one to
  investigate failures exactly when the rate is below 90, and no other recommendation.
\<close>

theorem health_verdict_thresholds:
  assumes "validResults rs \<noteq> []"
  shows "let valid = validResults rs;
             report = generateMonitoringReport app ns rs;
             rate = healthPercentage valid;
             ready = mean (List.map_filter ready_replicas_of valid);
             running = mean (List.map_filter running_pods_of valid)
         in (overall_health report = ''healthy'' \<longleftrightarrow> 90 \<le> rate) \<and>
            (overall_health report = ''warning'' \<longleftrightarrow> 70 \<le> rate \<and> rate < 90) \<and>
            (overall_health report = ''unhealthy'' \<longleftrightarrow> rate < 70) \<and>
            (''Low replica count detected'' \<in> set (alerts report) \<longleftrightarrow> ready < 1) \<and>
            (''Insufficient running pods'' \<in> set (alerts report) \<longleftrightarrow> running < 1) \<and>
            (''Health check success rate below 80%'' \<in> set (alerts report) \<longleftrightarrow> rate < 80) \<and>
            set (alerts report) \<subseteq>
              {''Low replica count detected'', ''Insufficient running pods'',
               ''Health check success rate below 80%''} \<and>
            (''Consider increasing replica count for high availability''
               \<in> set (recommendations report) \<longleftrightarrow> ready < 2) \<and>
            (''Investigate health check failures'' \<in> set (recommendations report)
               \<longleftrightarrow> rate < 90) \<and>
            set (recommendations report) \<subseteq>
              {''Consider increasing replica count for high availability'',
               ''Investigate health check failures''}"
  using assms
  by (auto simp add: generateMonitoringReport_def Let_def average_ready average_pods)

text \<open>Success rates of 100, 85 and 60 percent: 20 of 20, 17 of 20 and 3 of 5 probes healthy.\<close>

theorem health_verdict_thresholds_witness:
  "validResults (campaign 20 0) \<noteq> [] \<and>
   overall_health (generateMonitoringReport ''app'' ''staging'' (campaign 20 0)) = ''healthy'' \<and>
   overall_health (generateMonitoringReport ''app'' ''staging'' (campaign 17 3)) = ''warning'' \<and>
   overall_health (generateMonitoringReport ''app'' ''staging'' (campaign 3 2)) = ''unhealthy''"
  using health_verdict_thresholds [of "campaign 20 0" "''app''" "''staging''"]
        health_verdict_thresholds [of "campaign 17 3" "''app''" "''staging''"]
        health_verdict_thresholds [of "campaign 3 2" "''app''" "''staging''"]
  apply (simp only: valid_campaign rate_campaign Let_def)
  apply (simp add: campaign_def)
  done

text \<open>
  C5. When every sample of the input carries an error (a non-empty message: the filter
  tests \<open>!r.error\<close>, and the empty string is falsy), no sample passes the filter, and the
  report is the fixed one: verdict \<open>unknown\<close>, no metrics (no average is computed), exactly
  one alert and exactly one recommendation. The empty input is such an input.
\<close>

theorem no_valid_samples_unknown:
  assumes "\<forall>r \<in> set rs. truthy (sample_error r)"
  shows "validResults rs = [] \<and>
         generateMonitoringReport app ns rs =
           \<lparr>overall_health = ''unknown'',
            metrics = None,
            alerts = [''No valid monitoring data collected''],
            recommendations = [''Check monitoring configuration and connectivity'']\<rparr> \<and>
         length (alerts (generateMonitoringReport app ns rs)) = 1 \<and>
         length (recommendations (generateMonitoringReport app ns rs)) = 1"
proof -
  from assms have "validResults rs = []"
    by (simp add: validResults_def filter_empty_conv)
  then show ?thesis
    by (simp add: generateMonitoringReport_def)
qed

theorem no_valid_samples_unknown_witness:
  "truthy (sample_error (FailedSample ''2024-01-01T00:00:00.000Z'' ''connect ECONNREFUSED'')) \<and>
   truthy (sample_error (FailedSample ''2024-01-01T00:00:30.000Z'' ''timeout of 5000ms exceeded'')) \<and>
   overall_health (generateMonitoringReport ''app'' ''staging''
     [FailedSample ''2024-01-01T00:00:00.000Z'' ''connect ECONNREFUSED'',
      FailedSample ''2024-01-01T00:00:30.000Z'' ''timeout of 5000ms exceeded'']) = ''unknown'' \<and>
   metrics (generateMonitoringReport ''app'' ''staging''
     [FailedSample ''2024-01-01T00:00:00.000Z'' ''connect ECONNREFUSED'',
      FailedSample ''2024-01-01T00:00:30.000Z'' ''timeout of 5000ms exceeded'']) = None"
  using no_valid_samples_unknown
    [of "[FailedSample ''2024-01-01T00:00:00.000Z'' ''connect ECONNREFUSED'',
          FailedSample ''2024-01-01T00:00:30.000Z'' ''timeout of 5000ms exceeded'']"
        "''app''" "''staging''"]
  by simp

section \<open>Address Resolver\<close>

lemma number_toString_nonempty: "number_toString n \<noteq> []"
  by (subst number_toString.simps) simp

lemma number_toString_80: "number_toString 80 = ''80''"
  by (simp add: number_toString.simps digit_def)

lemma ingress_url_nonempty: "ingress_url ingress = Some url \<Longrightarrow> url \<noteq> []"
  by (auto simp: ingress_url_def split: option.splits list.splits if_splits)

lemma service_url_nonempty: "service_url appName namespace service \<noteq> []"
  by (simp add: service_url_def split: option.splits list.splits)

text \<open>
  C6. For every application name and namespace, on every platform and in every state,
  \<open>getServiceUrl\<close> returns (it never throws) and the address it returns is not empty.
  An error of the ingress lookup is swallowed: the result is what the service tier
  gives from the state the failed lookup left. When the service lookup fails as well,
  the result is the synthesized cluster-local name.
\<close>

theorem address_always_resolved:
  "(\<exists>url s'. getServiceUrl api appName namespace environment s = (Inr url, s') \<and> url \<noteq> []) \<and>
   (readNamespacedIngress api (appName @ ''-ingress'') namespace s = (Inl e1, s1) \<longrightarrow>
      getServiceUrl api appName namespace environment s =
        (case readNamespacedService api (appName @ ''-service'') namespace s1 of
           (Inr service, s2) \<Rightarrow> (Inr (service_url appName namespace service), s2)
         | (Inl e2, s2) \<Rightarrow>
             (Inr (''http://'' @ appName @ ''-service.'' @ namespace @ ''.svc.cluster.local''), s2))) \<and>
   (readNamespacedIngress api (appName @ ''-ingress'') namespace s = (Inl e1, s1) \<longrightarrow>
    readNamespacedService api (appName @ ''-service'') namespace s1 = (Inl e2, s2) \<longrightarrow>
      getServiceUrl api appName namespace environment s =
        (Inr (''http://'' @ appName @ ''-service.'' @ namespace @ ''.svc.cluster.local''), s2))"
proof (intro conjI impI)
  show "\<exists>url s'. getServiceUrl api appName namespace environment s = (Inr url, s') \<and> url \<noteq> []"
    by (auto simp: getServiceUrl_def service_url_nonempty
          split: prod.splits sum.splits option.splits dest: ingress_url_nonempty)
next
  assume "readNamespacedIngress api (appName @ ''-ingress'') namespace s = (Inl e1, s1)"
  then show "getServiceUrl api appName namespace environment s =
        (case readNamespacedService api (appName @ ''-service'') namespace s1 of
           (Inr service, s2) \<Rightarrow> (Inr (service_url appName namespace service), s2)
         | (Inl e2, s2) \<Rightarrow>
             (Inr (''http://'' @ appName @ ''-service.'' @ namespace @ ''.svc.cluster.local''), s2))"
    by (simp add: getServiceUrl_def split: prod.splits sum.splits)
next
  assume "readNamespacedIngress api (appName @ ''-ingress'') namespace s = (Inl e1, s1)"
    and "readNamespacedService api (appName @ ''-service'') namespace s1 = (Inl e2, s2)"
  then show "getServiceUrl api appName namespace environment s =
        (Inr (''http://'' @ appName @ ''-service.'' @ namespace @ ''.svc.cluster.local''), s2)"
    by (simp add: getServiceUrl_def)
qed

theorem address_always_resolved_witness:
  "readNamespacedIngress offline (''acme-shop'' @ ''-ingress'') ''staging'' () = (Inl unreachable, ()) \<and>
   readNamespacedService offline (''acme-shop'' @ ''-service'') ''staging'' () = (Inl unreachable, ()) \<and>
   getServiceUrl offline ''acme-shop'' ''staging'' ''staging'' () =
     (Inr ''http://acme-shop-service.staging.svc.cluster.local'', ())"
  using address_always_resolved
    [of offline "''acme-shop''" "''staging''" "''staging''" "()" unreachable "()" unreachable "()"]
  by (simp add: offline_def)

text \<open>
  C7, as stated, fails: an ingress whose first rule names no host and whose second rule
  names \<open>a.example.com\<close> has a host rule, and with TLS configured the claim gives
  \<open>https://a.example.com\<close>; \<open>getServiceUrl\<close> reads \<open>rules[0]\<close> only, finds no host there and
  returns the address of the LoadBalancer service.
\<close>

theorem ingress_host_rule_counterexample:
  "declared_hosts hostless_first_ingress = [''a.example.com''] \<and>
   scheme_of hostless_first_ingress = ''https'' \<and>
   getServiceUrl (serving hostless_first_ingress lb_service) ''acme-shop'' ''staging'' ''staging'' ()
     = (Inr ''http://b.example.com:80'', ()) \<and>
   getServiceUrl (serving hostless_first_ingress lb_service) ''acme-shop'' ''staging'' ''staging'' ()
     \<noteq> (Inr (scheme_of hostless_first_ingress @ ''://'' @ hd (declared_hosts hostless_first_ingress)), ())"
  by (simp add: declared_hosts_def scheme_of_def hostless_first_ingress_def lb_service_def
      serving_def offline_def getServiceUrl_def ingress_url_def service_url_def or_else_def
      first_port_def number_toString_80)

text \<open>
  C7, amended. Whenever the ingress exists and its first rule declares a non-empty host,
  \<open>getServiceUrl\<close> returns that host, with scheme \<open>https\<close> if the ingress specification has
  a \<open>tls\<close> field and \<open>http\<close> otherwise. The service is not read: the state is the one the
  ingress read left, and the result is the same whatever the service read would return,
  so a LoadBalancer service with an external endpoint does not change it.
\<close>

theorem ingress_first_rule_wins:
  assumes "readNamespacedIngress api (appName @ ''-ingress'') namespace s = (Inr ingress, s1)"
    and "ib_spec ingress = Some spec"
    and "is_rules spec = Some (rule # rules)"
    and "ir_host rule = Some host"
    and "host \<noteq> []"
  shows "getServiceUrl api appName namespace environment s =
           (Inr ((if is_tls spec = None then ''http'' else ''https'') @ ''://'' @ host), s1) \<and>
         getServiceUrl (api\<lparr>readNamespacedService := f\<rparr>) appName namespace environment s =
           getServiceUrl api appName namespace environment s"
  using assms
  by (simp add: getServiceUrl_def ingress_url_def split: option.splits)

theorem ingress_first_rule_wins_witness:
  "getServiceUrl (serving tls_ingress lb_service) ''acme-shop'' ''staging'' ''staging'' ()
     = (Inr ''https://a.example.com'', ())"
  using ingress_first_rule_wins
    [of "serving tls_ingress lb_service" "''acme-shop''" "''staging''" "()" tls_ingress "()"
        "\<lparr>is_rules = Some [\<lparr>ir_host = Some ''a.example.com''\<rparr>], is_tls = Some [''a-example-com-tls'']\<rparr>"
        "\<lparr>ir_host = Some ''a.example.com''\<rparr>" "[]" "''a.example.com''" "''staging''"]
  by (simp add: serving_def offline_def tls_ingress_def)

section \<open>Rollback Controller\<close>

lemma deployed_once_deployments:
  "deployments deployed_once =
     [((''staging'', ''acme-shop''),
       \<lparr>r_metadata = \<lparr>md_name = ''acme-shop'',
                       md_labels = [(''app'', ''acme-shop''), (''deployment-id'', ''7f3c''),
                                    (''managed-by'', ''mcp-devops-server'')]\<rparr>,
        r_rest = ''spec: replicas 2, image acme/shop:1.4.2''\<rparr>)]"
  by (simp add: deployed_once_def deployToKubernetes_def block_def shop_config_def
      shop_deployment_def shop_service_def shop_ingress_def
      applyDeployment_def applyService_def applyIngress_def stamp_def reference_cluster_def
      store_create_def empty_cluster_def)

lemma deployed_once_rollbacks: "rollbacks deployed_once = []"
  by (simp add: deployed_once_def deployToKubernetes_def block_def shop_config_def
      shop_deployment_def shop_service_def shop_ingress_def
      applyDeployment_def applyService_def applyIngress_def stamp_def reference_cluster_def
      store_create_def empty_cluster_def)

text \<open>
  C8. When the list of deployments carrying the correlation identifier is empty,
  \<open>rollback\<close> throws \<open>No deployment found with ID ...\<close> from the state the list call left,
  and the rollback request is not issued: the result does not depend on what that
  request would do. On the reference cluster the cluster is left as it was. When the list
  has at least one deployment, the result is that of the rollback request issued for the
  name of the first one, and on success the message names it.
\<close>

theorem rollback_not_found_or_first:
  "(listNamespacedDeployment api namespace (''deployment-id='' @ deploymentId) s = (Inr [], s1) \<longrightarrow>
      rollback api deploymentId namespace s =
        (Inl (Error (''No deployment found with ID '' @ deploymentId)), s1) \<and>
      rollback (api\<lparr>createNamespacedDeploymentRollback := f\<rparr>) deploymentId namespace s =
        rollback api deploymentId namespace s) \<and>
   (store_list namespace (''deployment-id='' @ deploymentId) (deployments c) = [] \<longrightarrow>
      rollback reference_cluster deploymentId namespace c =
        (Inl (Error (''No deployment found with ID '' @ deploymentId)), c)) \<and>
   (listNamespacedDeployment api namespace (''deployment-id='' @ deploymentId) s
      = (Inr (deployment # others), s1) \<longrightarrow>
      rollback api deploymentId namespace s =
        (case createNamespacedDeploymentRollback api (md_name (db_metadata deployment)) namespace
                (md_name (db_metadata deployment)) s1 of
           (Inl error, s2) \<Rightarrow> (Inl error, s2)
         | (Inr u, s2) \<Rightarrow>
             (Inr \<lparr>rb_status = ''success'',
                   rb_message = ''Deployment '' @ md_name (db_metadata deployment)
                                @ '' rolled back successfully''\<rparr>, s2)))"
  by (simp add: rollback_def reference_cluster_def)

theorem rollback_not_found_or_first_witness:
  "store_list ''staging'' (''deployment-id='' @ ''0000'') (deployments deployed_once) = [] \<and>
   rollback reference_cluster ''0000'' ''staging'' deployed_once =
     (Inl (Error ''No deployment found with ID 0000''), deployed_once) \<and>
   rollback reference_cluster ''7f3c'' ''staging'' deployed_once =
     (Inr \<lparr>rb_status = ''success'', rb_message = ''Deployment acme-shop rolled back successfully''\<rparr>,
      deployed_once\<lparr>rollbacks := [(''staging'', ''acme-shop'')]\<rparr>)"
  using rollback_not_found_or_first
    [of reference_cluster "''staging''" "''0000''" deployed_once deployed_once
        "\<lambda>name namespace body c. (Inr (), c)" deployed_once
        "body_of (snd (hd (deployments deployed_once)))" "[]"]
    rollback_not_found_or_first
    [of reference_cluster "''staging''" "''7f3c''" deployed_once deployed_once
        "\<lambda>name namespace body c. (Inr (), c)" deployed_once
        "body_of (snd (hd (deployments deployed_once)))" "[]"]
  by (simp add: reference_cluster_def store_list_def selects_def deployed_once_deployments
      deployed_once_rollbacks body_of_def)

section \<open>Resource Applier\<close>

lemma stamp_name: "stamp deploymentId d = Inr r \<Longrightarrow> d_metadata d = Some m \<Longrightarrow>
    md_name (r_metadata r) = md_name m"
  by (auto simp: stamp_def)

lemma stamp_named: "d_metadata d = Some m \<Longrightarrow> \<exists>r. stamp deploymentId d = Inr r \<and> md_name (r_metadata r) = md_name m"
  by (simp add: stamp_def)

text \<open>The three blocks on the reference cluster.\<close>

lemma reference_applyDeployment:
  assumes "stamp deploymentId d = Inr r"
  shows "applyDeployment reference_cluster namespace deploymentId d c =
     (if map_of (deployments c) (namespace, md_name (r_metadata r)) = None
      then (Inr \<lparr>o_type = ''deployment'', o_name = md_name (r_metadata r), o_status = ''created''\<rparr>,
            c\<lparr>deployments := deployments c @ [((namespace, md_name (r_metadata r)), r)]\<rparr>)
      else (Inr \<lparr>o_type = ''deployment'', o_name = md_name (r_metadata r), o_status = ''updated''\<rparr>,
            c\<lparr>deployments := AList.update (namespace, md_name (r_metadata r)) r (deployments c)\<rparr>))"
  using assms
  by (simp add: applyDeployment_def reference_cluster_def store_create_def store_replace_def
      conflict_def)

lemma reference_applyService:
  assumes "stamp deploymentId d = Inr r"
  shows "applyService reference_cluster namespace deploymentId d c =
     (if map_of (services c) (namespace, md_name (r_metadata r)) = None
      then (Inr \<lparr>o_type = ''service'', o_name = md_name (r_metadata r), o_status = ''created''\<rparr>,
            c\<lparr>services := services c @ [((namespace, md_name (r_metadata r)), r)]\<rparr>)
      else (Inr \<lparr>o_type = ''service'', o_name = md_name (r_metadata r), o_status = ''exists''\<rparr>, c))"
  using assms
  by (simp add: applyService_def reference_cluster_def store_create_def conflict_def)

lemma reference_applyIngress:
  assumes "stamp deploymentId d = Inr r"
  shows "applyIngress reference_cluster namespace deploymentId d c =
     (if map_of (ingresses c) (namespace, md_name (r_metadata r)) = None
      then (Inr \<lparr>o_type = ''ingress'', o_name = md_name (r_metadata r), o_status = ''created''\<rparr>,
            c\<lparr>ingresses := ingresses c @ [((namespace, md_name (r_metadata r)), r)]\<rparr>)
      else (Inr \<lparr>o_type = ''ingress'', o_name = md_name (r_metadata r), o_status = ''updated''\<rparr>,
            c\<lparr>ingresses := AList.update (namespace, md_name (r_metadata r)) r (ingresses c)\<rparr>))"
  using assms
  by (simp add: applyIngress_def reference_cluster_def store_create_def store_replace_def
      conflict_def)

lemma map_of_snoc: "map_of (st @ [(k, v)]) k' = (if map_of st k' = None \<and> k' = k then Some v else map_of st k')"
  by (cases "map_of st k'") (simp_all add: map_add_def)

lemma map_of_update: "map_of (AList.update k v st) k' = (if k' = k then Some v else map_of st k')"
  by (simp add: update_conv')

text \<open>
  One application on the reference cluster, descriptor by descriptor: it succeeds, each
  status is \<open>created\<close> when the name was free and \<open>updated\<close> (\<open>exists\<close> for the service)
  when it was taken, and afterwards every name is taken.
\<close>

lemma reference_apply_once:
  assumes "named (cfg_deployment cfg)" "named (cfg_service cfg)" "named (cfg_ingress cfg)"
  shows "\<exists>rs c'. deployToKubernetes reference_cluster cfg namespace appName deploymentId c = (Inr rs, c') \<and>
           map o_status rs = statuses
             (if fresh (deployments c) namespace (cfg_deployment cfg) then ''created'' else ''updated'')
             (if fresh (services c) namespace (cfg_service cfg) then ''created'' else ''exists'')
             (if fresh (ingresses c) namespace (cfg_ingress cfg) then ''created'' else ''updated'') cfg \<and>
           (cfg_deployment cfg \<noteq> None \<longrightarrow> \<not> fresh (deployments c') namespace (cfg_deployment cfg)) \<and>
           (cfg_service cfg \<noteq> None \<longrightarrow> \<not> fresh (services c') namespace (cfg_service cfg)) \<and>
           (cfg_ingress cfg \<noteq> None \<longrightarrow> \<not> fresh (ingresses c') namespace (cfg_ingress cfg)) \<and>
           (cfg_service cfg = None \<or> \<not> fresh (services c) namespace (cfg_service cfg) \<longrightarrow>
              services c' = services c) \<and>
           (\<forall>d r. cfg_deployment cfg = Some d \<longrightarrow> stamp deploymentId d = Inr r \<longrightarrow>
              map_of (deployments c') (namespace, md_name (r_metadata r)) = Some r) \<and>
           (\<forall>d r. cfg_ingress cfg = Some d \<longrightarrow> stamp deploymentId d = Inr r \<longrightarrow>
              map_of (ingresses c') (namespace, md_name (r_metadata r)) = Some r)"
proof -
  obtain o1 c1 where 1: "block (cfg_deployment cfg) (applyDeployment reference_cluster namespace deploymentId) (Inr [], c) = (Inr o1, c1)"
    and s1: "map o_status o1 = (case cfg_deployment cfg of None \<Rightarrow> [] | Some d \<Rightarrow> [if fresh (deployments c) namespace (cfg_deployment cfg) then ''created'' else ''updated''])"
    and f1: "cfg_deployment cfg \<noteq> None \<longrightarrow> \<not> fresh (deployments c1) namespace (cfg_deployment cfg)"
    and k1: "services c1 = services c" "ingresses c1 = ingresses c"
    and d1: "\<forall>d r. cfg_deployment cfg = Some d \<longrightarrow> stamp deploymentId d = Inr r \<longrightarrow>
              map_of (deployments c1) (namespace, md_name (r_metadata r)) = Some r"
  proof (cases "cfg_deployment cfg")
    case None
    then show ?thesis using that by (simp add: block_def)
  next
    case (Some d)
    with assms(1) obtain m where m: "d_metadata d = Some m" by auto
    then obtain r where r: "stamp deploymentId d = Inr r" "md_name (r_metadata r) = md_name m"
      using stamp_named by blast
    show ?thesis
      using that Some m r
      by (cases "map_of (deployments c) (namespace, md_name m) = None")
         (simp_all add: block_def reference_applyDeployment [OF r(1)] map_of_snoc map_of_update del: map_of_append)
  qed
  obtain o2 c2 where 2: "block (cfg_service cfg) (applyService reference_cluster namespace deploymentId) (Inr o1, c1) = (Inr (o1 @ o2), c2)"
    and s2: "map o_status o2 = (case cfg_service cfg of None \<Rightarrow> [] | Some d \<Rightarrow> [if fresh (services c) namespace (cfg_service cfg) then ''created'' else ''exists''])"
    and f2: "cfg_service cfg \<noteq> None \<longrightarrow> \<not> fresh (services c2) namespace (cfg_service cfg)"
    and k2: "deployments c2 = deployments c1" "ingresses c2 = ingresses c1"
    and u2: "cfg_service cfg = None \<or> \<not> fresh (services c) namespace (cfg_service cfg) \<longrightarrow>
      services c2 = services c"
  proof (cases "cfg_service cfg")
    case None
    then show ?thesis using that [of "[]" c1] k1 by (simp add: block_def)
  next
    case (Some d)
    with assms(2) obtain m where m: "d_metadata d = Some m" by auto
    then obtain r where r: "stamp deploymentId d = Inr r" "md_name (r_metadata r) = md_name m"
      using stamp_named by blast
    show ?thesis
      using that Some m r k1
      by (cases "map_of (services c) (namespace, md_name m) = None")
         (simp_all add: block_def reference_applyService [OF r(1)] map_of_snoc del: map_of_append)
  qed
  obtain o3 c3 where 3: "block (cfg_ingress cfg) (applyIngress reference_cluster namespace deploymentId) (Inr (o1 @ o2), c2) = (Inr (o1 @ o2 @ o3), c3)"
    and s3: "map o_status o3 = (case cfg_ingress cfg of None \<Rightarrow> [] | Some d \<Rightarrow> [if fresh (ingresses c) namespace (cfg_ingress cfg) then ''created'' else ''updated''])"
    and f3: "cfg_ingress cfg \<noteq> None \<longrightarrow> \<not> fresh (ingresses c3) namespace (cfg_ingress cfg)"
    and k3: "deployments c3 = deployments c2" "services c3 = services c2"
    and d3: "\<forall>d r. cfg_ingress cfg = Some d \<longrightarrow> stamp deploymentId d = Inr r \<longrightarrow>
              map_of (ingresses c3) (namespace, md_name (r_metadata r)) = Some r"
  proof (cases "cfg_ingress cfg")
    case None
    then show ?thesis using that [of "[]" c2] by (simp add: block_def)
  next
    case (Some d)
    with assms(3) obtain m where m: "d_metadata d = Some m" by auto
    then obtain r where r: "stamp deploymentId d = Inr r" "md_name (r_metadata r) = md_name m"
      using stamp_named by blast
    show ?thesis
      using that Some m r k1 k2
      by (cases "map_of (ingresses c) (namespace, md_name m) = None")
         (simp_all add: block_def reference_applyIngress [OF r(1)] map_of_snoc map_of_update del: map_of_append)
  qed
  have "deployToKubernetes reference_cluster cfg namespace appName deploymentId c = (Inr (o1 @ o2 @ o3), c3)"
    by (simp add: deployToKubernetes_def 1 2 3)
  moreover have "map o_status (o1 @ o2 @ o3) = statuses
             (if fresh (deployments c) namespace (cfg_deployment cfg) then ''created'' else ''updated'')
             (if fresh (services c) namespace (cfg_service cfg) then ''created'' else ''exists'')
             (if fresh (ingresses c) namespace (cfg_ingress cfg) then ''created'' else ''updated'') cfg"
    by (simp add: statuses_def s1 s2 s3)
  ultimately show ?thesis
    using f1 f2 f3 k1 k2 k3 u2 d1 d3 by simp
qed

lemma block_throw:
  "f x s = (Inl e, s1) \<Longrightarrow> block (Some x) f (Inr done, s) = (Inl e, s1)"
  by (simp add: block_def)

lemma block_Inl: "block d f (Inl e, s) = (Inl e, s)"
  by (simp add: block_def)

lemma block_origin:
  "fst (block d f (r, s)) = Inl e \<Longrightarrow> r = Inl e \<or> (\<exists>x t. d = Some x \<and> fst (f x t) = Inl e)"
  by (auto simp: block_def split: sum.splits option.splits prod.splits) (metis fst_conv)

text \<open>
  C2. The conflict condition is a create that fails with status 409.
  \<^item> Under it a Deployment (an Ingress) is replaced by the whole stamped descriptor and
    reported \<open>updated\<close>, or the failure of the replace is thrown unchanged; a Service is
    reported \<open>exists\<close> from the state the failed create left, with no further call. In no
    case is the status \<open>created\<close>.
  \<^item> A create that fails with anything else throws that failure unchanged, and a throw of
    the first block is what \<open>deployToKubernetes\<close> throws; whatever \<open>deployToKubernetes\<close>
    throws was thrown by one of its blocks.
  \<^item> On the reference cluster, for descriptors that carry \<open>metadata\<close> and from any cluster
    state, two applications in succession (with any two correlation identifiers) both
    succeed; the statuses of the first are \<open>created\<close> for the names that were free, those
    of the second are \<open>updated\<close>, \<open>exists\<close>, \<open>updated\<close>; the second leaves the services as
    they were and leaves the Deployment and the Ingress equal to the newly stamped
    descriptors.
\<close>

theorem apply_conflict_updates_or_exists:
  "(stamp deploymentId dD = Inr rD \<longrightarrow>
    createNamespacedDeployment api namespace rD s = (Inl eD, sD) \<longrightarrow> e_statusCode eD = Some 409 \<longrightarrow>
      applyDeployment api namespace deploymentId dD s =
        (case replaceNamespacedDeployment api (md_name (r_metadata rD)) namespace rD sD of
           (Inr u, s2) \<Rightarrow>
             (Inr \<lparr>o_type = ''deployment'', o_name = md_name (r_metadata rD), o_status = ''updated''\<rparr>, s2)
         | (Inl e2, s2) \<Rightarrow> (Inl e2, s2))) \<and>
   (stamp deploymentId dS = Inr rS \<longrightarrow>
    createNamespacedService api namespace rS s = (Inl eS, sS) \<longrightarrow> e_statusCode eS = Some 409 \<longrightarrow>
      applyService api namespace deploymentId dS s =
        (Inr \<lparr>o_type = ''service'', o_name = md_name (r_metadata rS), o_status = ''exists''\<rparr>, sS)) \<and>
   (stamp deploymentId dI = Inr rI \<longrightarrow>
    createNamespacedIngress api namespace rI s = (Inl eI, sI) \<longrightarrow> e_statusCode eI = Some 409 \<longrightarrow>
      applyIngress api namespace deploymentId dI s =
        (case replaceNamespacedIngress api (md_name (r_metadata rI)) namespace rI sI of
           (Inr u, s2) \<Rightarrow>
             (Inr \<lparr>o_type = ''ingress'', o_name = md_name (r_metadata rI), o_status = ''updated''\<rparr>, s2)
         | (Inl e2, s2) \<Rightarrow> (Inl e2, s2))) \<and>
   (stamp deploymentId dD = Inr rD \<longrightarrow>
    createNamespacedDeployment api namespace rD t = (Inl xD, tD) \<longrightarrow> e_statusCode xD \<noteq> Some 409 \<longrightarrow>
      applyDeployment api namespace deploymentId dD t = (Inl xD, tD) \<and>
      (cfg_deployment kubernetesConfig = Some dD \<longrightarrow>
         deployToKubernetes api kubernetesConfig namespace appName deploymentId t = (Inl xD, tD))) \<and>
   (stamp deploymentId dS = Inr rS \<longrightarrow>
    createNamespacedService api namespace rS t = (Inl xS, tS) \<longrightarrow> e_statusCode xS \<noteq> Some 409 \<longrightarrow>
      applyService api namespace deploymentId dS t = (Inl xS, tS)) \<and>
   (stamp deploymentId dI = Inr rI \<longrightarrow>
    createNamespacedIngress api namespace rI t = (Inl xI, tI) \<longrightarrow> e_statusCode xI \<noteq> Some 409 \<longrightarrow>
      applyIngress api namespace deploymentId dI t = (Inl xI, tI)) \<and>
   (fst (deployToKubernetes api kubernetesConfig namespace appName deploymentId s) = Inl x \<longrightarrow>
      (\<exists>d s0. cfg_deployment kubernetesConfig = Some d \<and>
               fst (applyDeployment api namespace deploymentId d s0) = Inl x) \<or>
      (\<exists>d s0. cfg_service kubernetesConfig = Some d \<and>
               fst (applyService api namespace deploymentId d s0) = Inl x) \<or>
      (\<exists>d s0. cfg_ingress kubernetesConfig = Some d \<and>
               fst (applyIngress api namespace deploymentId d s0) = Inl x)) \<and>
   (named (cfg_deployment cfg) \<longrightarrow> named (cfg_service cfg) \<longrightarrow> named (cfg_ingress cfg) \<longrightarrow>
      (\<exists>first c1 second c2.
         deployToKubernetes reference_cluster cfg namespace appName deploymentId c = (Inr first, c1) \<and>
         deployToKubernetes reference_cluster cfg namespace appName deploymentId' c1 = (Inr second, c2) \<and>
         map o_status first = statuses
           (if fresh (deployments c) namespace (cfg_deployment cfg) then ''created'' else ''updated'')
           (if fresh (services c) namespace (cfg_service cfg) then ''created'' else ''exists'')
           (if fresh (ingresses c) namespace (cfg_ingress cfg) then ''created'' else ''updated'') cfg \<and>
         map o_status second = statuses ''updated'' ''exists'' ''updated'' cfg \<and>
         ''created'' \<notin> set (map o_status second) \<and>
         services c2 = services c1 \<and>
         (\<forall>d r. cfg_deployment cfg = Some d \<longrightarrow> stamp deploymentId' d = Inr r \<longrightarrow>
            map_of (deployments c2) (namespace, md_name (r_metadata r)) = Some r) \<and>
         (\<forall>d r. cfg_ingress cfg = Some d \<longrightarrow> stamp deploymentId' d = Inr r \<longrightarrow>
            map_of (ingresses c2) (namespace, md_name (r_metadata r)) = Some r)))"
proof (intro conjI impI)
  assume "stamp deploymentId dD = Inr rD"
    "createNamespacedDeployment api namespace rD s = (Inl eD, sD)" "e_statusCode eD = Some 409"
  then show "applyDeployment api namespace deploymentId dD s =
        (case replaceNamespacedDeployment api (md_name (r_metadata rD)) namespace rD sD of
           (Inr u, s2) \<Rightarrow>
             (Inr \<lparr>o_type = ''deployment'', o_name = md_name (r_metadata rD), o_status = ''updated''\<rparr>, s2)
         | (Inl e2, s2) \<Rightarrow> (Inl e2, s2))"
    by (simp add: applyDeployment_def split: prod.splits sum.splits)
next
  assume "stamp deploymentId dS = Inr rS"
    "createNamespacedService api namespace rS s = (Inl eS, sS)" "e_statusCode eS = Some 409"
  then show "applyService api namespace deploymentId dS s =
        (Inr \<lparr>o_type = ''service'', o_name = md_name (r_metadata rS), o_status = ''exists''\<rparr>, sS)"
    by (simp add: applyService_def)
next
  assume "stamp deploymentId dI = Inr rI"
    "createNamespacedIngress api namespace rI s = (Inl eI, sI)" "e_statusCode eI = Some 409"
  then show "applyIngress api namespace deploymentId dI s =
        (case replaceNamespacedIngress api (md_name (r_metadata rI)) namespace rI sI of
           (Inr u, s2) \<Rightarrow>
             (Inr \<lparr>o_type = ''ingress'', o_name = md_name (r_metadata rI), o_status = ''updated''\<rparr>, s2)
         | (Inl e2, s2) \<Rightarrow> (Inl e2, s2))"
    by (simp add: applyIngress_def split: prod.splits sum.splits)
next
  assume a: "stamp deploymentId dD = Inr rD"
    "createNamespacedDeployment api namespace rD t = (Inl xD, tD)" "e_statusCode xD \<noteq> Some 409"
  then show b: "applyDeployment api namespace deploymentId dD t = (Inl xD, tD)"
    by (simp add: applyDeployment_def)
  assume "cfg_deployment kubernetesConfig = Some dD"
  then show "deployToKubernetes api kubernetesConfig namespace appName deploymentId t = (Inl xD, tD)"
    by (simp add: deployToKubernetes_def block_Inl
          block_throw [where f = "applyDeployment api namespace deploymentId" and x = dD, OF b])
next
  assume "stamp deploymentId dS = Inr rS"
    "createNamespacedService api namespace rS t = (Inl xS, tS)" "e_statusCode xS \<noteq> Some 409"
  then show "applyService api namespace deploymentId dS t = (Inl xS, tS)"
    by (simp add: applyService_def)
next
  assume "stamp deploymentId dI = Inr rI"
    "createNamespacedIngress api namespace rI t = (Inl xI, tI)" "e_statusCode xI \<noteq> Some 409"
  then show "applyIngress api namespace deploymentId dI t = (Inl xI, tI)"
    by (simp add: applyIngress_def)
next
  assume thrown: "fst (deployToKubernetes api kubernetesConfig namespace appName deploymentId s) = Inl x"
  obtain r1 s1 where 1: "block (cfg_deployment kubernetesConfig)
      (applyDeployment api namespace deploymentId) (Inr [], s) = (r1, s1)"
    by (cases "block (cfg_deployment kubernetesConfig)
      (applyDeployment api namespace deploymentId) (Inr [], s)")
  obtain r2 s2 where 2: "block (cfg_service kubernetesConfig)
      (applyService api namespace deploymentId) (r1, s1) = (r2, s2)"
    by (cases "block (cfg_service kubernetesConfig)
      (applyService api namespace deploymentId) (r1, s1)")
  from thrown have "fst (block (cfg_ingress kubernetesConfig)
      (applyIngress api namespace deploymentId) (r2, s2)) = Inl x"
    by (simp add: deployToKubernetes_def 1 2)
  then have o3: "r2 = Inl x \<or> (\<exists>d s0. cfg_ingress kubernetesConfig = Some d \<and>
         fst (applyIngress api namespace deploymentId d s0) = Inl x)"
    by (rule block_origin)
  have o2: "r2 = Inl x \<Longrightarrow> r1 = Inl x \<or> (\<exists>d s0. cfg_service kubernetesConfig = Some d \<and>
         fst (applyService api namespace deploymentId d s0) = Inl x)"
    using 2 block_origin [of "cfg_service kubernetesConfig"
        "applyService api namespace deploymentId" r1 s1 x]
    by simp
  have o1: "r1 = Inl x \<Longrightarrow> (\<exists>d s0. cfg_deployment kubernetesConfig = Some d \<and>
         fst (applyDeployment api namespace deploymentId d s0) = Inl x)"
    using 1 block_origin [of "cfg_deployment kubernetesConfig"
        "applyDeployment api namespace deploymentId" "Inr []" s x]
    by simp
  from o1 o2 o3 show "(\<exists>d s0. cfg_deployment kubernetesConfig = Some d \<and>
               fst (applyDeployment api namespace deploymentId d s0) = Inl x) \<or>
      (\<exists>d s0. cfg_service kubernetesConfig = Some d \<and>
               fst (applyService api namespace deploymentId d s0) = Inl x) \<or>
      (\<exists>d s0. cfg_ingress kubernetesConfig = Some d \<and>
               fst (applyIngress api namespace deploymentId d s0) = Inl x)"
    by argo
next
  assume n: "named (cfg_deployment cfg)" "named (cfg_service cfg)" "named (cfg_ingress cfg)"
  from reference_apply_once [OF n, of namespace appName deploymentId c]
  obtain first c1 where
    1: "deployToKubernetes reference_cluster cfg namespace appName deploymentId c = (Inr first, c1)"
    and s1: "map o_status first = statuses
           (if fresh (deployments c) namespace (cfg_deployment cfg) then ''created'' else ''updated'')
           (if fresh (services c) namespace (cfg_service cfg) then ''created'' else ''exists'')
           (if fresh (ingresses c) namespace (cfg_ingress cfg) then ''created'' else ''updated'') cfg"
    and taken: "cfg_deployment cfg \<noteq> None \<longrightarrow> \<not> fresh (deployments c1) namespace (cfg_deployment cfg)"
      "cfg_service cfg \<noteq> None \<longrightarrow> \<not> fresh (services c1) namespace (cfg_service cfg)"
      "cfg_ingress cfg \<noteq> None \<longrightarrow> \<not> fresh (ingresses c1) namespace (cfg_ingress cfg)"
    by blast
  from reference_apply_once [OF n, of namespace appName deploymentId' c1]
  obtain second c2 where
    2: "deployToKubernetes reference_cluster cfg namespace appName deploymentId' c1 = (Inr second, c2)"
    and s2: "map o_status second = statuses
           (if fresh (deployments c1) namespace (cfg_deployment cfg) then ''created'' else ''updated'')
           (if fresh (services c1) namespace (cfg_service cfg) then ''created'' else ''exists'')
           (if fresh (ingresses c1) namespace (cfg_ingress cfg) then ''created'' else ''updated'') cfg"
    and u2: "cfg_service cfg = None \<or> \<not> fresh (services c1) namespace (cfg_service cfg) \<longrightarrow>
      services c2 = services c1"
    and d2: "\<forall>d r. cfg_deployment cfg = Some d \<longrightarrow> stamp deploymentId' d = Inr r \<longrightarrow>
              map_of (deployments c2) (namespace, md_name (r_metadata r)) = Some r"
       "\<forall>d r. cfg_ingress cfg = Some d \<longrightarrow> stamp deploymentId' d = Inr r \<longrightarrow>
              map_of (ingresses c2) (namespace, md_name (r_metadata r)) = Some r"
    by blast
  have st: "map o_status second = statuses ''updated'' ''exists'' ''updated'' cfg"
    using s2 taken by (auto simp: statuses_def split: option.splits)
  have never: "''created'' \<notin> set (map o_status second)"
    unfolding st by (simp add: statuses_def split: option.splits)
  have svc: "services c2 = services c1"
    using taken(2) u2 by (cases "cfg_service cfg = None") simp_all
  show "\<exists>first c1 second c2.
         deployToKubernetes reference_cluster cfg namespace appName deploymentId c = (Inr first, c1) \<and>
         deployToKubernetes reference_cluster cfg namespace appName deploymentId' c1 = (Inr second, c2) \<and>
         map o_status first = statuses
           (if fresh (deployments c) namespace (cfg_deployment cfg) then ''created'' else ''updated'')
           (if fresh (services c) namespace (cfg_service cfg) then ''created'' else ''exists'')
           (if fresh (ingresses c) namespace (cfg_ingress cfg) then ''created'' else ''updated'') cfg \<and>
         map o_status second = statuses ''updated'' ''exists'' ''updated'' cfg \<and>
         ''created'' \<notin> set (map o_status second) \<and>
         services c2 = services c1 \<and>
         (\<forall>d r. cfg_deployment cfg = Some d \<longrightarrow> stamp deploymentId' d = Inr r \<longrightarrow>
            map_of (deployments c2) (namespace, md_name (r_metadata r)) = Some r) \<and>
         (\<forall>d r. cfg_ingress cfg = Some d \<longrightarrow> stamp deploymentId' d = Inr r \<longrightarrow>
            map_of (ingresses c2) (namespace, md_name (r_metadata r)) = Some r)"
    using 1 2 s1 st never svc d2 by blast
qed

lemma deployed_once_value:
  "deployed_once =
     \<lparr>deployments = [((''staging'', ''acme-shop''), stamped ''7f3c'' shop_deployment)],
      services = [((''staging'', ''acme-shop-service''), stamped ''7f3c'' shop_service)],
      ingresses = [((''staging'', ''acme-shop-ingress''), stamped ''7f3c'' shop_ingress)],
      rollbacks = []\<rparr>"
  by (simp add: deployed_once_def deployToKubernetes_def block_def shop_config_def
      shop_deployment_def shop_service_def shop_ingress_def stamped_def
      applyDeployment_def applyService_def applyIngress_def stamp_def reference_cluster_def
      store_create_def empty_cluster_def)

lemma stamp_shop:
  "stamp i shop_deployment = Inr (stamped i shop_deployment)"
  "stamp i shop_service = Inr (stamped i shop_service)"
  "stamp i shop_ingress = Inr (stamped i shop_ingress)"
  by (simp_all add: stamped_def stamp_def shop_deployment_def shop_service_def shop_ingress_def)

lemma stamped_name:
  "md_name (r_metadata (stamped i shop_deployment)) = ''acme-shop''"
  "md_name (r_metadata (stamped i shop_service)) = ''acme-shop-service''"
  "md_name (r_metadata (stamped i shop_ingress)) = ''acme-shop-ingress''"
  by (simp_all add: stamped_def stamp_def shop_deployment_def shop_service_def shop_ingress_def)

theorem apply_conflict_updates_or_exists_witness:
  "e_statusCode conflict = Some 409 \<and>
   createNamespacedService reference_cluster ''staging'' (stamped ''9a1e'' shop_service) deployed_once
     = (Inl conflict, deployed_once) \<and>
   applyService reference_cluster ''staging'' ''9a1e'' shop_service deployed_once =
     (Inr \<lparr>o_type = ''service'', o_name = ''acme-shop-service'', o_status = ''exists''\<rparr>, deployed_once) \<and>
   applyDeployment reference_cluster ''staging'' ''9a1e'' shop_deployment deployed_once =
     (Inr \<lparr>o_type = ''deployment'', o_name = ''acme-shop'', o_status = ''updated''\<rparr>,
      deployed_once\<lparr>deployments := [((''staging'', ''acme-shop''), stamped ''9a1e'' shop_deployment)]\<rparr>) \<and>
   applyIngress reference_cluster ''staging'' ''9a1e'' shop_ingress deployed_once =
     (Inr \<lparr>o_type = ''ingress'', o_name = ''acme-shop-ingress'', o_status = ''updated''\<rparr>,
      deployed_once\<lparr>ingresses := [((''staging'', ''acme-shop-ingress''), stamped ''9a1e'' shop_ingress)]\<rparr>) \<and>
   e_statusCode unreachable \<noteq> Some 409 \<and>
   deployToKubernetes offline shop_config ''staging'' ''acme-shop'' ''9a1e'' () = (Inl unreachable, ()) \<and>
   (\<exists>c1. deployToKubernetes reference_cluster shop_config ''staging'' ''acme-shop'' ''7f3c'' empty_cluster
           = (Inr [\<lparr>o_type = ''deployment'', o_name = ''acme-shop'', o_status = ''created''\<rparr>,
                   \<lparr>o_type = ''service'', o_name = ''acme-shop-service'', o_status = ''created''\<rparr>,
                   \<lparr>o_type = ''ingress'', o_name = ''acme-shop-ingress'', o_status = ''created''\<rparr>], c1) \<and>
         (\<exists>c2. deployToKubernetes reference_cluster shop_config ''staging'' ''acme-shop'' ''9a1e'' c1
           = (Inr [\<lparr>o_type = ''deployment'', o_name = ''acme-shop'', o_status = ''updated''\<rparr>,
                   \<lparr>o_type = ''service'', o_name = ''acme-shop-service'', o_status = ''exists''\<rparr>,
                   \<lparr>o_type = ''ingress'', o_name = ''acme-shop-ingress'', o_status = ''updated''\<rparr>], c2)))"
proof -
  note on_cluster = apply_conflict_updates_or_exists
    [where api = reference_cluster and namespace = "''staging''" and deploymentId = "''9a1e''"
       and s = deployed_once
       and dD = shop_deployment and rD = "stamped ''9a1e'' shop_deployment"
       and eD = conflict and sD = deployed_once
       and dS = shop_service and rS = "stamped ''9a1e'' shop_service"
       and eS = conflict and sS = deployed_once
       and dI = shop_ingress and rI = "stamped ''9a1e'' shop_ingress"
       and eI = conflict and sI = deployed_once
       and cfg = shop_config and c = empty_cluster and deploymentId' = "''7f3c''"
       and appName = "''acme-shop''"]
  note off_cluster = apply_conflict_updates_or_exists
    [where api = offline and namespace = "''staging''" and deploymentId = "''9a1e''"
       and t = "()" and dD = shop_deployment and rD = "stamped ''9a1e'' shop_deployment"
       and xD = unreachable and tD = "()" and kubernetesConfig = shop_config
       and appName = "''acme-shop''"]
  have created: "createNamespacedDeployment reference_cluster ''staging'' (stamped ''9a1e'' shop_deployment) deployed_once
       = (Inl conflict, deployed_once)"
    "createNamespacedService reference_cluster ''staging'' (stamped ''9a1e'' shop_service) deployed_once
       = (Inl conflict, deployed_once)"
    "createNamespacedIngress reference_cluster ''staging'' (stamped ''9a1e'' shop_ingress) deployed_once
       = (Inl conflict, deployed_once)"
    by (simp_all add: reference_cluster_def store_create_def deployed_once_value stamped_name)
  have replaced: "replaceNamespacedDeployment reference_cluster ''acme-shop'' ''staging''
         (stamped ''9a1e'' shop_deployment) deployed_once
       = (Inr (), deployed_once\<lparr>deployments := [((''staging'', ''acme-shop''), stamped ''9a1e'' shop_deployment)]\<rparr>)"
    "replaceNamespacedIngress reference_cluster ''acme-shop-ingress'' ''staging''
         (stamped ''9a1e'' shop_ingress) deployed_once
       = (Inr (), deployed_once\<lparr>ingresses := [((''staging'', ''acme-shop-ingress''), stamped ''9a1e'' shop_ingress)]\<rparr>)"
    by (simp_all add: reference_cluster_def store_replace_def deployed_once_value)
  have c409: "e_statusCode conflict = Some 409" "e_statusCode unreachable \<noteq> Some 409"
    by (simp_all add: conflict_def unreachable_def)
  have off: "createNamespacedDeployment offline ''staging'' (stamped ''9a1e'' shop_deployment) ()
       = (Inl unreachable, ())"
    by (simp add: offline_def)
  have cfg: "cfg_deployment shop_config = Some shop_deployment"
    by (simp add: shop_config_def)
  have twice: "\<exists>c1. deployToKubernetes reference_cluster shop_config ''staging'' ''acme-shop'' ''7f3c'' empty_cluster
           = (Inr [\<lparr>o_type = ''deployment'', o_name = ''acme-shop'', o_status = ''created''\<rparr>,
                   \<lparr>o_type = ''service'', o_name = ''acme-shop-service'', o_status = ''created''\<rparr>,
                   \<lparr>o_type = ''ingress'', o_name = ''acme-shop-ingress'', o_status = ''created''\<rparr>], c1) \<and>
         (\<exists>c2. deployToKubernetes reference_cluster shop_config ''staging'' ''acme-shop'' ''9a1e'' c1
           = (Inr [\<lparr>o_type = ''deployment'', o_name = ''acme-shop'', o_status = ''updated''\<rparr>,
                   \<lparr>o_type = ''service'', o_name = ''acme-shop-service'', o_status = ''exists''\<rparr>,
                   \<lparr>o_type = ''ingress'', o_name = ''acme-shop-ingress'', o_status = ''updated''\<rparr>], c2))"
    by (simp add: deployToKubernetes_def block_def shop_config_def
      reference_applyDeployment [OF stamp_shop(1)] reference_applyService [OF stamp_shop(2)]
      reference_applyIngress [OF stamp_shop(3)] stamped_name empty_cluster_def)
  show ?thesis
    using on_cluster off_cluster created replaced c409 off cfg twice
    by (simp add: stamp_shop stamped_name)
qed

section \<open>Monitor: lookup and liveness probe\<close>

lemma monitor_not_found:
  "findDeploymentById api (p_deployment_id params) (namespace_of params) s = (None, s1) \<Longrightarrow>
   monitor api rt params s =
     (Inl (Error (''Deployment with ID '' @ p_deployment_id params @ '' not found'')), s1)"
  unfolding monitor_def namespace_of_def Let_def
  by (simp split: option.splits)

lemma failing_list_lookup:
  "listNamespacedDeployment failing_list namespace labelSelector () = (Inl internal_error, ())"
  by (simp add: failing_list_def)

lemma monitor_7f3c_fields:
  "p_deployment_id monitor_7f3c = ''7f3c''" "namespace_of monitor_7f3c = ''staging''"
  by (simp_all add: monitor_7f3c_def namespace_of_def)

text \<open>
  C9, as stated, fails: when the list call of the lookup throws an internal server error
  (status 500), \<open>monitor\<close> does not throw that error; it throws the failure of a lookup
  without a match.
\<close>

theorem lookup_error_masked_counterexample:
  "listNamespacedDeployment failing_list ''staging'' (''deployment-id='' @ ''7f3c'') ()
     = (Inl internal_error, ()) \<and>
   fst (monitor failing_list still_clock monitor_7f3c ()) \<noteq> Inl internal_error \<and>
   fst (monitor failing_list still_clock monitor_7f3c ())
     = Inl (Error ''Deployment with ID 7f3c not found'')"
proof -
  have "findDeploymentById failing_list (p_deployment_id monitor_7f3c) (namespace_of monitor_7f3c) ()
          = (None, ())"
    by (simp add: findDeploymentById_def failing_list_lookup)
  then have "monitor failing_list still_clock monitor_7f3c ()
          = (Inl (Error (''Deployment with ID '' @ p_deployment_id monitor_7f3c @ '' not found'')), ())"
    by (rule monitor_not_found)
  then show ?thesis
    by (simp add: failing_list_lookup monitor_7f3c_fields internal_error_def Error_def)
qed

text \<open>
  C9, amended. Whatever the cluster API throws during the lookup of the deployment by its
  correlation identifier is caught: \<open>findDeploymentById\<close> returns \<open>null\<close>, and \<open>monitor\<close>
  fails with \<open>Deployment with ID ... not found\<close>, the failure it also gives when the lookup
  succeeds with zero matches. The error of the cluster API is not propagated.
\<close>

theorem lookup_error_reported_as_not_found:
  "(listNamespacedDeployment api (namespace_of params) (''deployment-id='' @ p_deployment_id params) s
      = (Inl error, s1) \<longrightarrow>
      findDeploymentById api (p_deployment_id params) (namespace_of params) s = (None, s1) \<and>
      monitor api rt params s =
        (Inl (Error (''Deployment with ID '' @ p_deployment_id params @ '' not found'')), s1)) \<and>
   (listNamespacedDeployment api (namespace_of params) (''deployment-id='' @ p_deployment_id params) s
      = (Inr [], s1) \<longrightarrow>
      findDeploymentById api (p_deployment_id params) (namespace_of params) s = (None, s1) \<and>
      monitor api rt params s =
        (Inl (Error (''Deployment with ID '' @ p_deployment_id params @ '' not found'')), s1))"
proof (intro conjI impI)
  assume "listNamespacedDeployment api (namespace_of params)
      (''deployment-id='' @ p_deployment_id params) s = (Inl error, s1)"
  then show a: "findDeploymentById api (p_deployment_id params) (namespace_of params) s = (None, s1)"
    by (simp add: findDeploymentById_def)
  then show "monitor api rt params s =
        (Inl (Error (''Deployment with ID '' @ p_deployment_id params @ '' not found'')), s1)"
    by (rule monitor_not_found)
next
  assume "listNamespacedDeployment api (namespace_of params)
      (''deployment-id='' @ p_deployment_id params) s = (Inr [], s1)"
  then show a: "findDeploymentById api (p_deployment_id params) (namespace_of params) s = (None, s1)"
    by (simp add: findDeploymentById_def)
  then show "monitor api rt params s =
        (Inl (Error (''Deployment with ID '' @ p_deployment_id params @ '' not found'')), s1)"
    by (rule monitor_not_found)
qed

theorem lookup_error_reported_as_not_found_witness:
  "listNamespacedDeployment failing_list (namespace_of monitor_7f3c)
     (''deployment-id='' @ p_deployment_id monitor_7f3c) () = (Inl internal_error, ()) \<and>
   listNamespacedDeployment reference_cluster (namespace_of monitor_7f3c)
     (''deployment-id='' @ p_deployment_id monitor_7f3c) empty_cluster = (Inr [], empty_cluster) \<and>
   monitor failing_list still_clock monitor_7f3c ()
     = (Inl (Error ''Deployment with ID 7f3c not found''), ()) \<and>
   monitor reference_cluster still_clock monitor_7f3c empty_cluster
     = (Inl (Error ''Deployment with ID 7f3c not found''), empty_cluster)"
  using lookup_error_reported_as_not_found
          [of failing_list monitor_7f3c "()" internal_error "()" still_clock]
        lookup_error_reported_as_not_found
          [of reference_cluster monitor_7f3c empty_cluster internal_error empty_cluster
              still_clock]
  by (simp add: failing_list_lookup monitor_7f3c_fields)
     (simp add: reference_cluster_def store_list_def empty_cluster_def)

lemma monitor_url_nonempty:
  "monitor_getServiceUrl api appName namespace s = (Some url, s1) \<Longrightarrow> url \<noteq> []"
  unfolding monitor_getServiceUrl_def
  by (cases "readNamespacedService api (appName @ ''-service'') namespace s")
     (auto split: sum.splits option.splits if_splits)

lemma healthcheck_without_url:
  "monitor_getServiceUrl api appName namespace s = (None, s1) \<Longrightarrow>
   performHealthCheck api appName namespace s =
     (\<lparr>h_status = ''unknown'', h_status_code = None, h_response_time = None,
       h_message = ''Service URL not available''\<rparr>, s1)"
  by (simp add: performHealthCheck_def)

lemma healthcheck_with_url:
  "monitor_getServiceUrl api appName namespace s = (Some url, s1) \<Longrightarrow>
   performHealthCheck api appName namespace s =
     (case axios_get api (url @ ''/health'') s1 of
        (Inr response, s2) \<Rightarrow>
          (\<lparr>h_status = (if resp_status response = 200 then ''healthy'' else ''unhealthy''),
            h_status_code = Some (resp_status response),
            h_response_time =
              or_else (map_of (resp_headers response) ''x-response-time'') (Some ''unknown''),
            h_message =
              (if resp_status response = 200 then ''Health check passed''
               else ''Health check failed'')\<rparr>, s2)
      | (Inl error, s2) \<Rightarrow>
          (\<lparr>h_status = ''unhealthy'', h_status_code = None, h_response_time = None,
            h_message = ''Health check failed: '' @ e_message error\<rparr>, s2))"
  using monitor_url_nonempty [of api appName namespace s url s1]
  by (simp add: performHealthCheck_def)

text \<open>
  C10. \<open>performHealthCheck\<close> always returns a result. Its status is \<open>healthy\<close> exactly when
  the service has an address and the probe is answered with status code 200. An answer
  with any other status code (201 and 204 among them) gives \<open>unhealthy\<close> with the status
  code kept, and a request that throws gives \<open>unhealthy\<close> with the message of the error.
\<close>

theorem probe_healthy_iff_200:
  "(h_status (fst (performHealthCheck api appName namespace s)) = ''healthy'' \<longleftrightarrow>
      (\<exists>url s1 response s2.
         monitor_getServiceUrl api appName namespace s = (Some url, s1) \<and>
         axios_get api (url @ ''/health'') s1 = (Inr response, s2) \<and>
         resp_status response = 200)) \<and>
   (monitor_getServiceUrl api appName namespace s = (Some url, s1) \<longrightarrow>
    axios_get api (url @ ''/health'') s1 = (Inr response, s2) \<longrightarrow>
    resp_status response \<noteq> 200 \<longrightarrow>
      snd (performHealthCheck api appName namespace s) = s2 \<and>
      h_status (fst (performHealthCheck api appName namespace s)) = ''unhealthy'' \<and>
      h_status_code (fst (performHealthCheck api appName namespace s)) = Some (resp_status response)) \<and>
   (monitor_getServiceUrl api appName namespace s = (Some url, s1) \<longrightarrow>
    axios_get api (url @ ''/health'') s1 = (Inl error, s2) \<longrightarrow>
      performHealthCheck api appName namespace s =
        (\<lparr>h_status = ''unhealthy'', h_status_code = None, h_response_time = None,
          h_message = ''Health check failed: '' @ e_message error\<rparr>, s2))"
proof (intro conjI impI)
  show "h_status (fst (performHealthCheck api appName namespace s)) = ''healthy'' \<longleftrightarrow>
      (\<exists>url s1 response s2.
         monitor_getServiceUrl api appName namespace s = (Some url, s1) \<and>
         axios_get api (url @ ''/health'') s1 = (Inr response, s2) \<and>
         resp_status response = 200)"
  proof (cases "monitor_getServiceUrl api appName namespace s")
    case (Pair serviceUrl s1)
    show ?thesis
    proof (cases serviceUrl)
      case None
      with Pair show ?thesis by (simp add: healthcheck_without_url)
    next
      case (Some url)
      with Pair have u: "monitor_getServiceUrl api appName namespace s = (Some url, s1)" by simp
      show ?thesis
      proof (cases "axios_get api (url @ ''/health'') s1")
        case (Pair answer s2)
        then show ?thesis
          by (cases answer) (simp_all add: healthcheck_with_url [OF u] u)
      qed
    qed
  qed
next
  assume a: "monitor_getServiceUrl api appName namespace s = (Some url, s1)"
    "axios_get api (url @ ''/health'') s1 = (Inr response, s2)" "resp_status response \<noteq> 200"
  then show "snd (performHealthCheck api appName namespace s) = s2"
    and "h_status (fst (performHealthCheck api appName namespace s)) = ''unhealthy''"
    and "h_status_code (fst (performHealthCheck api appName namespace s)) = Some (resp_status response)"
    by (simp_all add: healthcheck_with_url [OF a(1)])
next
  assume a: "monitor_getServiceUrl api appName namespace s = (Some url, s1)"
    "axios_get api (url @ ''/health'') s1 = (Inl error, s2)"
  then show "performHealthCheck api appName namespace s =
        (\<lparr>h_status = ''unhealthy'', h_status_code = None, h_response_time = None,
          h_message = ''Health check failed: '' @ e_message error\<rparr>, s2)"
    by (simp add: healthcheck_with_url [OF a(1)])
qed

lemma answering_url:
  "monitor_getServiceUrl (answering code) ''acme-shop'' ''staging'' () = (Some ''http://10.0.0.7:80'', ())"
  by (simp add: monitor_getServiceUrl_def answering_def offline_def lb_service_def first_port_def
      number_toString_80)

theorem probe_healthy_iff_200_witness:
  "h_status (fst (performHealthCheck (answering (Some 200)) ''acme-shop'' ''staging'' ())) = ''healthy'' \<and>
   h_status (fst (performHealthCheck (answering (Some 201)) ''acme-shop'' ''staging'' ())) = ''unhealthy'' \<and>
   h_status_code (fst (performHealthCheck (answering (Some 201)) ''acme-shop'' ''staging'' ())) = Some 201 \<and>
   h_status (fst (performHealthCheck (answering (Some 204)) ''acme-shop'' ''staging'' ())) = ''unhealthy'' \<and>
   h_status_code (fst (performHealthCheck (answering (Some 204)) ''acme-shop'' ''staging'' ())) = Some 204 \<and>
   performHealthCheck (answering None) ''acme-shop'' ''staging'' () =
     (\<lparr>h_status = ''unhealthy'', h_status_code = None, h_response_time = None,
       h_message = ''Health check failed: timeout of 5000ms exceeded''\<rparr>, ())"
  using probe_healthy_iff_200
          [of "answering (Some 200)" "''acme-shop''" "''staging''" "()" "''http://10.0.0.7:80''" "()"
              "\<lparr>resp_status = 200, resp_headers = []\<rparr>" "()" "Error ''timeout of 5000ms exceeded''"]
        probe_healthy_iff_200
          [of "answering (Some 201)" "''acme-shop''" "''staging''" "()" "''http://10.0.0.7:80''" "()"
              "\<lparr>resp_status = 201, resp_headers = []\<rparr>" "()" "Error ''timeout of 5000ms exceeded''"]
        probe_healthy_iff_200
          [of "answering (Some 204)" "''acme-shop''" "''staging''" "()" "''http://10.0.0.7:80''" "()"
              "\<lparr>resp_status = 204, resp_headers = []\<rparr>" "()" "Error ''timeout of 5000ms exceeded''"]
        probe_healthy_iff_200
          [of "answering None" "''acme-shop''" "''staging''" "()" "''http://10.0.0.7:80''" "()"
              "\<lparr>resp_status = 204, resp_headers = []\<rparr>" "()" "Error ''timeout of 5000ms exceeded''"]
  by (simp add: answering_url) (simp add: answering_def offline_def Error_def)

section \<open>Readiness wait\<close>

lemma poll_start_add: "poll_start env k \<le> poll_start env (k + d)"
  by (induction d) simp_all

lemma poll_start_mono: "k \<le> k' \<Longrightarrow> poll_start env k \<le> poll_start env k'"
  using poll_start_add [of env k "k' - k"] by simp

lemma poll_start_interval: "5000 * k \<le> poll_start env k"
  by (induction k) simp_all

lemma waitLoop_deadline:
  "\<not> poll_start env k < t \<Longrightarrow>
   waitLoop env appName t (poll_start env k) k =
     (Inl (Error (''Deployment '' @ appName @ '' did not become ready within ''
                    @ number_toString t @ ''ms'')), poll_start env k, k)"
  by (subst waitLoop.simps) simp

lemma waitLoop_ready:
  "poll_start env k < t \<Longrightarrow> observes_ready (env k) \<Longrightarrow>
   waitLoop env appName t (poll_start env k) k =
     (Inr True, poll_start env k + p_latency (env k), Suc k)"
  by (subst waitLoop.simps) (simp add: observes_ready_def split: sum.splits)

lemma waitLoop_again:
  "poll_start env k < t \<Longrightarrow> \<not> observes_ready (env k) \<Longrightarrow>
   waitLoop env appName t (poll_start env k) k =
     waitLoop env appName t (poll_start env (Suc k)) (Suc k)"
  by (subst waitLoop.simps) (simp add: observes_ready_def split: sum.splits)

text \<open>
  The loop entered at the \<open>k\<close>-th poll, at the time that poll starts. \<open>n\<close> is the number
  of polls made when it ends.
\<close>

lemma waitLoop_run:
  assumes "waitLoop env appName t (poll_start env k) k = (res, elapsed', n)"
  shows "k \<le> n \<and>
         (\<forall>j. k \<le> j \<and> j < n \<longrightarrow> poll_start env j < t) \<and>
         (\<forall>j. k \<le> j \<and> Suc j < n \<longrightarrow> \<not> observes_ready (env j)) \<and>
         (res = Inr True \<longrightarrow> k < n \<and> observes_ready (env (n - 1))) \<and>
         (res \<noteq> Inr True \<longrightarrow>
            res = Inl (Error (''Deployment '' @ appName @ '' did not become ready within ''
                               @ number_toString t @ ''ms'')) \<and>
            elapsed' = poll_start env n \<and> t \<le> elapsed' \<and>
            (\<forall>j. k \<le> j \<and> j < n \<longrightarrow> \<not> observes_ready (env j)))"
  using assms
proof (induction "t - poll_start env k" arbitrary: k rule: less_induct)
  case less
  show ?case
  proof (cases "poll_start env k < t")
    case False
    with less.prems have "res = Inl (Error (''Deployment '' @ appName
          @ '' did not become ready within '' @ number_toString t @ ''ms''))"
      and "elapsed' = poll_start env k" and "n = k"
      by (auto simp: waitLoop_deadline)
    with False show ?thesis
      by (auto simp: Error_def)
  next
    case True
    note before = True
    show ?thesis
    proof (cases "observes_ready (env k)")
      case True
      with before less.prems have "res = Inr True" "n = Suc k"
        by (simp_all add: waitLoop_ready)
      with True before show ?thesis
        by (auto simp: le_less_Suc_eq)
    next
      case False
      from False before less.prems
      have run: "waitLoop env appName t (poll_start env (Suc k)) (Suc k) = (res, elapsed', n)"
        by (simp add: waitLoop_again)
      have "t - poll_start env (Suc k) < t - poll_start env k"
        using before by simp
      from less.hyps [OF this run]
      have IH: "Suc k \<le> n \<and>
         (\<forall>j. Suc k \<le> j \<and> j < n \<longrightarrow> poll_start env j < t) \<and>
         (\<forall>j. Suc k \<le> j \<and> Suc j < n \<longrightarrow> \<not> observes_ready (env j)) \<and>
         (res = Inr True \<longrightarrow> Suc k < n \<and> observes_ready (env (n - 1))) \<and>
         (res \<noteq> Inr True \<longrightarrow>
            res = Inl (Error (''Deployment '' @ appName @ '' did not become ready within ''
                               @ number_toString t @ ''ms'')) \<and>
            elapsed' = poll_start env n \<and> t \<le> elapsed' \<and>
            (\<forall>j. Suc k \<le> j \<and> j < n \<longrightarrow> \<not> observes_ready (env j)))" .
      have step: "\<And>j. k \<le> j \<Longrightarrow> j = k \<or> Suc k \<le> j" by arith
      have a: "k \<le> n" using IH by simp
      have b: "\<forall>j. k \<le> j \<and> j < n \<longrightarrow> poll_start env j < t"
        using IH before step by blast
      have c: "\<forall>j. k \<le> j \<and> Suc j < n \<longrightarrow> \<not> observes_ready (env j)"
        using IH False step by blast
      have d: "res = Inr True \<longrightarrow> k < n \<and> observes_ready (env (n - 1))"
        using IH by simp
      have e: "res \<noteq> Inr True \<longrightarrow> (\<forall>j. k \<le> j \<and> j < n \<longrightarrow> \<not> observes_ready (env j))"
        using IH False step by blast
      from a b c d e IH show ?thesis by blast
    qed
  qed
qed

text \<open>
  C1. \<open>waitForDeployment\<close> always returns or throws (the loop terminates). It returns
  \<open>true\<close> exactly when one of the polls it made observed
  \<open>readyReplicas = replicas\<close> with \<open>replicas > 0\<close>, which is the case exactly when some
  poll that starts before the deadline observes it. A poll that did not observe it, a
  read that threw among them, is followed by another poll unless the deadline has passed by
  then. When no poll observes it, the wait throws \<open>Deployment ... did not become ready
  within ...ms\<close>, at a time not before the deadline, after at most one poll per 5000
  milliseconds of the deadline. The deadline is 300000 milliseconds when none is given.
\<close>

theorem wait_ready_or_deadline:
  assumes "waitForDeployment env appName namespace timeoutMs = (res, elapsed, polls)"
  shows "(res = Inr True \<longleftrightarrow> (\<exists>k < polls. observes_ready (env k))) \<and>
         (res = Inr True \<longleftrightarrow>
            (\<exists>k. poll_start env k < deadline timeoutMs \<and> observes_ready (env k))) \<and>
         (\<forall>k < polls. \<not> observes_ready (env k) \<longrightarrow>
            Suc k < polls \<or> deadline timeoutMs \<le> poll_start env (Suc k)) \<and>
         (res \<noteq> Inr True \<longrightarrow>
            res = Inl (Error (''Deployment '' @ appName @ '' did not become ready within ''
                               @ number_toString (deadline timeoutMs) @ ''ms'')) \<and>
            deadline timeoutMs \<le> elapsed \<and> elapsed = poll_start env polls) \<and>
         5000 * (polls - 1) \<le> deadline timeoutMs \<and>
         deadline None = 300000"
proof -
  let ?t = "deadline timeoutMs"
  from assms have run: "waitLoop env appName ?t (poll_start env 0) 0 = (res, elapsed, polls)"
    by (simp add: waitForDeployment_def deadline_def)
  note facts = waitLoop_run [OF run]
  have made: "\<forall>j < polls. poll_start env j < ?t" using facts by blast
  have won: "res = Inr True \<longrightarrow> 0 < polls \<and> observes_ready (env (polls - 1))" using facts by blast
  have lost: "res \<noteq> Inr True \<longrightarrow>
            res = Inl (Error (''Deployment '' @ appName @ '' did not become ready within ''
                               @ number_toString ?t @ ''ms'')) \<and>
            elapsed = poll_start env polls \<and> ?t \<le> elapsed \<and>
            (\<forall>j < polls. \<not> observes_ready (env j))"
    using facts by blast
  have 1: "res = Inr True \<longleftrightarrow> (\<exists>k < polls. observes_ready (env k))"
  proof
    assume "res = Inr True"
    with won have "polls - 1 < polls" "observes_ready (env (polls - 1))" by simp_all
    then show "\<exists>k < polls. observes_ready (env k)" by blast
  next
    assume "\<exists>k < polls. observes_ready (env k)"
    with lost show "res = Inr True" by blast
  qed
  have 2: "res = Inr True \<longleftrightarrow> (\<exists>k. poll_start env k < ?t \<and> observes_ready (env k))"
  proof
    assume "res = Inr True"
    with won made have "poll_start env (polls - 1) < ?t" "observes_ready (env (polls - 1))"
      by simp_all
    then show "\<exists>k. poll_start env k < ?t \<and> observes_ready (env k)" by blast
  next
    assume "\<exists>k. poll_start env k < ?t \<and> observes_ready (env k)"
    then obtain k where k: "poll_start env k < ?t" "observes_ready (env k)" by blast
    show "res = Inr True"
    proof (rule ccontr)
      assume no: "res \<noteq> Inr True"
      with lost have late: "?t \<le> poll_start env polls"
        and none: "\<forall>j < polls. \<not> observes_ready (env j)" by simp_all
      from none k(2) have "polls \<le> k" by (meson not_le)
      then have "poll_start env polls \<le> poll_start env k" by (rule poll_start_mono)
      with late k(1) show False by simp
    qed
  qed
  have 3: "\<forall>k < polls. \<not> observes_ready (env k) \<longrightarrow>
            Suc k < polls \<or> ?t \<le> poll_start env (Suc k)"
  proof (intro allI impI)
    fix k assume k: "k < polls" "\<not> observes_ready (env k)"
    show "Suc k < polls \<or> ?t \<le> poll_start env (Suc k)"
    proof (cases "Suc k < polls")
      case True
      then show ?thesis by simp
    next
      case False
      with k(1) have last: "polls = Suc k" by simp
      with won k(2) have "res \<noteq> Inr True" by auto
      with lost last show ?thesis by simp
    qed
  qed
  have 4: "res \<noteq> Inr True \<longrightarrow>
            res = Inl (Error (''Deployment '' @ appName @ '' did not become ready within ''
                               @ number_toString ?t @ ''ms'')) \<and>
            ?t \<le> elapsed \<and> elapsed = poll_start env polls"
    using lost by blast
  have 5: "5000 * (polls - 1) \<le> ?t"
  proof (cases polls)
    case 0
    then show ?thesis by simp
  next
    case (Suc m)
    with made have "poll_start env m < ?t" by simp
    with poll_start_interval [of m env] Suc show ?thesis by simp
  qed
  have 6: "deadline None = 300000" by (simp add: deadline_def)
  from 1 2 3 4 5 6 show ?thesis by blast
qed

lemma ready_on_third_run:
  "waitForDeployment ready_on_third ''acme-shop'' ''staging'' None = (Inr True, 10126, 3)"
  by (simp add: waitForDeployment_def waitLoop.simps ready_on_third_def rolling_body_def
      isReady_def status_field_def)

lemma never_ready_short_run:
  "waitForDeployment never_ready ''acme-shop'' ''staging'' (Some 2000) =
     (Inl (Error ''Deployment acme-shop did not become ready within 2000ms''), 5000, 1)"
  by (simp add: waitForDeployment_def waitLoop.simps never_ready_def rolling_body_def
      isReady_def status_field_def number_toString.simps digit_def)

lemma never_ready_run:
  "waitForDeployment never_ready ''acme-shop'' ''staging'' None =
     (Inl (Error ''Deployment acme-shop did not become ready within 300000ms''), 300000, 60)"
  by (simp add: waitForDeployment_def waitLoop.simps never_ready_def rolling_body_def
      isReady_def status_field_def number_toString.simps digit_def)

theorem wait_ready_or_deadline_witness:
  "waitForDeployment ready_on_third ''acme-shop'' ''staging'' None = (Inr True, 10126, 3) \<and>
   (\<exists>k < 3. observes_ready (ready_on_third k)) \<and>
   waitForDeployment never_ready ''acme-shop'' ''staging'' (Some 2000) =
     (Inl (Error ''Deployment acme-shop did not become ready within 2000ms''), 5000, 1) \<and>
   \<not> (\<exists>k. poll_start never_ready k < 2000 \<and> observes_ready (never_ready k)) \<and>
   waitForDeployment never_ready ''acme-shop'' ''staging'' None =
     (Inl (Error ''Deployment acme-shop did not become ready within 300000ms''), 300000, 60) \<and>
   \<not> (\<exists>k < 60. observes_ready (never_ready k)) \<and>
   poll_start never_ready 60 = 300000"
proof -
  have third: "\<exists>k < 3. observes_ready (ready_on_third k)"
    using wait_ready_or_deadline [OF ready_on_third_run] by blast
  have short: "\<not> (\<exists>k. poll_start never_ready k < 2000 \<and> observes_ready (never_ready k))"
    using wait_ready_or_deadline [OF never_ready_short_run]
    by (simp add: deadline_def Error_def)
  have long: "\<not> (\<exists>k < 60. observes_ready (never_ready k))" "poll_start never_ready 60 = 300000"
    using wait_ready_or_deadline [OF never_ready_run]
    by (simp_all add: Error_def)
  from third short long show ?thesis
    by (simp only: ready_on_third_run never_ready_short_run never_ready_run simp_thms)
qed

section \<open>Monitoring Campaign Runner\<close>

lemma monitoringLoop_done:
  "\<not> i < iterations \<Longrightarrow>
   monitoringLoop rt collect appName namespace iterations i results s = (results, s)"
  by (subst monitoringLoop.simps) simp

lemma monitoringLoop_resolved:
  "i < iterations \<Longrightarrow> collect appName namespace s = (Inr m, s1) \<Longrightarrow>
   monitoringLoop rt collect appName namespace iterations i results s =
     monitoringLoop rt collect appName namespace iterations (i + 1)
       (results @ [Sample (toISOString rt s) m])
       (if i < iterations - 1 then sleep rt 30000 s1 else s1)"
  by (subst monitoringLoop.simps) simp

lemma monitoringLoop_threw:
  "i < iterations \<Longrightarrow> collect appName namespace s = (Inl e, s1) \<Longrightarrow>
   monitoringLoop rt collect appName namespace iterations i results s =
     monitoringLoop rt collect appName namespace iterations (i + 1)
       (results @ [FailedSample (toISOString rt s1) (e_message e)]) s1"
  by (subst monitoringLoop.simps) simp

lemma sleeps_between_Cons:
  "\<not> is_sleep e \<Longrightarrow> sleeps_between es \<Longrightarrow> sleeps_between (e # es)"
proof (cases es)
  case Nil
  assume "\<not> is_sleep e"
  with Nil show ?thesis by (cases e) simp_all
next
  case (Cons e' es')
  assume "\<not> is_sleep e" "sleeps_between es"
  with Cons show ?thesis by (cases e; cases e') simp_all
qed

lemma sleeps_between_sleep:
  "\<not> is_sleep e \<Longrightarrow> es \<noteq> [] \<Longrightarrow> sleeps_between es \<Longrightarrow> sleeps_between (e # Slept 30000 # es)"
  by (cases e) simp_all

lemma sleeps_fewer:
  "sleeps_between es \<Longrightarrow> es \<noteq> [] \<Longrightarrow> Suc (length (filter is_sleep es)) \<le> length (outcomes es)"
  by (induction es rule: sleeps_between.induct) auto

text \<open>
  The loop under the log, entered at iteration \<open>i\<close>: it returns what the loop without the
  log returns, adds one sample per remaining iteration, and extends the log by a
  well-formed run of collections and sleeps.
\<close>

lemma traced_loop:
  "\<exists>new ext.
     monitoringLoop (traced_runtime rt) (traced_collect collect) appName namespace iterations i
       results (s, events)
       = (results @ new, snd (monitoringLoop rt collect appName namespace iterations i results s),
          events @ ext) \<and>
     fst (monitoringLoop rt collect appName namespace iterations i results s) = results @ new \<and>
     length new = nat (iterations - i) \<and>
     map sample_error new = outcomes ext \<and>
     sleeps_between ext \<and>
     (i < iterations \<longrightarrow> ext \<noteq> [])"
proof (induction "nat (iterations - i)" arbitrary: i results s events)
  case 0
  then have "\<not> i < iterations" by simp
  then show ?case by (simp add: monitoringLoop_done)
next
  case (Suc n)
  then have running: "i < iterations" and rest: "n = nat (iterations - (i + 1))" by simp_all
  show ?case
  proof (cases "collect appName namespace s")
    case (Pair answer s1)
    show ?thesis
    proof (cases answer)
      case (Inr m)
      let ?s2 = "if i < iterations - 1 then sleep rt 30000 s1 else s1"
      let ?ev = "if i < iterations - 1 then events @ [Resolved, Slept 30000] else events @ [Resolved]"
      let ?results = "results @ [Sample (toISOString rt s) m]"
      from Pair Inr have c: "collect appName namespace s = (Inr m, s1)" by simp
      then have tc: "traced_collect collect appName namespace (s, events) = (Inr m, s1, events @ [Resolved])"
        by (simp add: traced_collect_def)
      have t: "monitoringLoop (traced_runtime rt) (traced_collect collect) appName namespace
                 iterations i results (s, events) =
               monitoringLoop (traced_runtime rt) (traced_collect collect) appName namespace
                 iterations (i + 1) ?results (?s2, ?ev)"
        by (simp add: monitoringLoop_resolved
              [where collect = "traced_collect collect" and s = "(s, events)", OF running tc] traced_runtime_def)
      have u: "monitoringLoop rt collect appName namespace iterations i results s =
               monitoringLoop rt collect appName namespace iterations (i + 1) ?results ?s2"
        by (simp add: monitoringLoop_resolved [where collect = collect and s = s, OF running c])
      from Suc.hyps(1) [OF rest, of ?results ?s2 ?ev] obtain new ext where
        IH: "monitoringLoop (traced_runtime rt) (traced_collect collect) appName namespace
               iterations (i + 1) ?results (?s2, ?ev)
             = (?results @ new,
                snd (monitoringLoop rt collect appName namespace iterations (i + 1) ?results ?s2),
                ?ev @ ext)"
          "fst (monitoringLoop rt collect appName namespace iterations (i + 1) ?results ?s2)
             = ?results @ new"
          "length new = nat (iterations - (i + 1))"
          "map sample_error new = outcomes ext"
          "sleeps_between ext"
          "i + 1 < iterations \<longrightarrow> ext \<noteq> []"
        by blast
      let ?new = "Sample (toISOString rt s) m # new"
      let ?ext = "if i < iterations - 1 then Resolved # Slept 30000 # ext else Resolved # ext"
      have 1: "monitoringLoop (traced_runtime rt) (traced_collect collect) appName namespace
                 iterations i results (s, events)
               = (results @ ?new,
                  snd (monitoringLoop rt collect appName namespace iterations i results s),
                  events @ ?ext)"
        using t u IH(1) by simp
      have 2: "fst (monitoringLoop rt collect appName namespace iterations i results s)
                 = results @ ?new"
        using u IH(2) by simp
      have 3: "length ?new = nat (iterations - i)"
        using IH(3) running by simp
      have 4: "map sample_error ?new = outcomes ?ext"
        using IH(4) by simp
      have 5: "sleeps_between ?ext"
        using IH(5,6) by (simp add: sleeps_between_Cons sleeps_between_sleep)
      have 6: "?ext \<noteq> []" by simp
      show ?thesis
        by (rule exI [of _ ?new], rule exI [of _ ?ext]) (intro conjI impI 1 2 3 4 5 6)
    next
      case (Inl e)
      let ?results = "results @ [FailedSample (toISOString rt s1) (e_message e)]"
      let ?ev = "events @ [Threw (e_message e)]"
      from Pair Inl have c: "collect appName namespace s = (Inl e, s1)" by simp
      then have tc: "traced_collect collect appName namespace (s, events) = (Inl e, s1, ?ev)"
        by (simp add: traced_collect_def)
      have t: "monitoringLoop (traced_runtime rt) (traced_collect collect) appName namespace
                 iterations i results (s, events) =
               monitoringLoop (traced_runtime rt) (traced_collect collect) appName namespace
                 iterations (i + 1) ?results (s1, ?ev)"
        by (simp add: monitoringLoop_threw
              [where collect = "traced_collect collect" and s = "(s, events)", OF running tc] traced_runtime_def)
      have u: "monitoringLoop rt collect appName namespace iterations i results s =
               monitoringLoop rt collect appName namespace iterations (i + 1) ?results s1"
        by (simp add: monitoringLoop_threw [where collect = collect and s = s, OF running c])
      from Suc.hyps(1) [OF rest, of ?results s1 ?ev] obtain new ext where
        IH: "monitoringLoop (traced_runtime rt) (traced_collect collect) appName namespace
               iterations (i + 1) ?results (s1, ?ev)
             = (?results @ new,
                snd (monitoringLoop rt collect appName namespace iterations (i + 1) ?results s1),
                ?ev @ ext)"
          "fst (monitoringLoop rt collect appName namespace iterations (i + 1) ?results s1)
             = ?results @ new"
          "length new = nat (iterations - (i + 1))"
          "map sample_error new = outcomes ext"
          "sleeps_between ext"
        by blast
      let ?new = "FailedSample (toISOString rt s1) (e_message e) # new"
      let ?ext = "Threw (e_message e) # ext"
      have 1: "monitoringLoop (traced_runtime rt) (traced_collect collect) appName namespace
                 iterations i results (s, events)
               = (results @ ?new,
                  snd (monitoringLoop rt collect appName namespace iterations i results s),
                  events @ ?ext)"
        using t u IH(1) by simp
      have 2: "fst (monitoringLoop rt collect appName namespace iterations i results s)
                 = results @ ?new"
        using u IH(2) by simp
      have 3: "length ?new = nat (iterations - i)"
        using IH(3) running by simp
      have 4: "map sample_error ?new = outcomes ?ext"
        using IH(4) by simp
      have 5: "sleeps_between ?ext"
        using IH(5) by (simp add: sleeps_between_Cons)
      have 6: "?ext \<noteq> []" by simp
      show ?thesis
        by (rule exI [of _ ?new], rule exI [of _ ?ext]) (intro conjI impI 1 2 3 4 5 6)
    qed
  qed
qed

text \<open>
  C3. For every whole number of seconds, a campaign produces exactly
  \<open>floor(durationSeconds / 30)\<close> samples, none when \<open>durationSeconds < 30\<close>, whatever the
  collections do: a collection that throws gives a sample with the message of the error,
  one that resolves gives a sample without error, in order. Under the log, the campaign
  returns the same samples and state, and its log has a sleep only between two
  iterations, each of 30000 milliseconds, and none after the last collection; there are
  fewer sleeps than samples.
\<close>

theorem campaign_sample_count:
  "length (fst (performMonitoring rt collect appName namespace durationSeconds s))
     = nat (durationSeconds div 30) \<and>
   (durationSeconds < 30 \<longrightarrow>
      fst (performMonitoring rt collect appName namespace durationSeconds s) = []) \<and>
   (case performMonitoring (traced_runtime rt) (traced_collect collect) appName namespace
           durationSeconds (s, []) of
      (results, s', events) \<Rightarrow>
        (results, s') = performMonitoring rt collect appName namespace durationSeconds s \<and>
        map sample_error results = outcomes events \<and>
        sleeps_between events \<and>
        length (filter is_sleep events) \<le> nat (durationSeconds div 30) - 1)"
proof -
  let ?n = "durationSeconds div 30"
  from traced_loop [of rt collect appName namespace ?n 0 "[]" s "[]"]
  obtain new ext where
    run0: "monitoringLoop (traced_runtime rt) (traced_collect collect) appName namespace ?n 0 []
            (s, []) = ([] @ new, snd (monitoringLoop rt collect appName namespace ?n 0 [] s),
                       [] @ ext)"
    and same0: "fst (monitoringLoop rt collect appName namespace ?n 0 [] s) = [] @ new"
    and count0: "length new = nat (?n - 0)"
    and kinds: "map sample_error new = outcomes ext"
    and paced: "sleeps_between ext"
    by blast
  from run0 have run: "monitoringLoop (traced_runtime rt) (traced_collect collect) appName
      namespace ?n 0 [] (s, []) = (new, snd (monitoringLoop rt collect appName namespace ?n 0 [] s), ext)"
    by simp
  from same0 have same: "fst (monitoringLoop rt collect appName namespace ?n 0 [] s) = new"
    by simp
  from count0 have count: "length new = nat ?n"
    by simp
  have 1: "length (fst (performMonitoring rt collect appName namespace durationSeconds s)) = nat ?n"
    using same count by (simp add: performMonitoring_def)
  have "durationSeconds < 30 \<Longrightarrow> nat ?n = 0"
    by (simp add: div_int_pos_iff)
  with 1 have 2: "durationSeconds < 30 \<longrightarrow>
      fst (performMonitoring rt collect appName namespace durationSeconds s) = []"
    by auto
  have "length (map sample_error new) = length (outcomes ext)"
    by (simp only: kinds)
  with count have samples: "length (outcomes ext) = nat ?n" by simp
  have sleeps: "length (filter is_sleep ext) \<le> nat ?n - 1"
  proof (cases "ext = []")
    case True
    then show ?thesis by simp
  next
    case False
    from sleeps_fewer [OF paced False] samples show ?thesis by simp
  qed
  have 3: "(case performMonitoring (traced_runtime rt) (traced_collect collect) appName namespace
           durationSeconds (s, []) of
      (results, s', events) \<Rightarrow>
        (results, s') = performMonitoring rt collect appName namespace durationSeconds s \<and>
        map sample_error results = outcomes events \<and>
        sleeps_between events \<and>
        length (filter is_sleep events) \<le> nat (durationSeconds div 30) - 1)"
  proof -
    have p: "performMonitoring (traced_runtime rt) (traced_collect collect) appName namespace
               durationSeconds (s, [])
             = (new, snd (monitoringLoop rt collect appName namespace ?n 0 [] s), ext)"
      using run by (simp add: performMonitoring_def)
    have q: "performMonitoring rt collect appName namespace durationSeconds s
             = (new, snd (monitoringLoop rt collect appName namespace ?n 0 [] s))"
      using same by (simp add: performMonitoring_def prod_eq_iff)
    show ?thesis
      unfolding p using q kinds paced sleeps by simp
  qed
  show ?thesis by (intro conjI 1 2 3)
qed

lemma flaky_campaign_log:
  "snd (snd (performMonitoring (traced_runtime still_clock) (traced_collect flaky_collect)
               ''acme-shop'' ''staging'' 95 (0, [])))
     = [Resolved, Slept 30000, Threw ''socket hang up'', Resolved]"
  by (simp add: performMonitoring_def monitoringLoop.simps traced_runtime_def traced_collect_def
      flaky_collect_def still_clock_def Error_def)

theorem campaign_sample_count_witness:
  "length (fst (performMonitoring still_clock flaky_collect ''acme-shop'' ''staging'' 30 0)) = 1 \<and>
   length (fst (performMonitoring still_clock flaky_collect ''acme-shop'' ''staging'' 95 0)) = 3 \<and>
   (29::int) < 30 \<and>
   fst (performMonitoring still_clock flaky_collect ''acme-shop'' ''staging'' 29 0) = [] \<and>
   map sample_error (fst (performMonitoring still_clock flaky_collect ''acme-shop'' ''staging'' 95 0))
     = [None, Some ''socket hang up'', None] \<and>
   snd (snd (performMonitoring (traced_runtime still_clock) (traced_collect flaky_collect)
               ''acme-shop'' ''staging'' 95 (0, [])))
     = [Resolved, Slept 30000, Threw ''socket hang up'', Resolved]"
proof -
  note short = campaign_sample_count [of still_clock flaky_collect "''acme-shop''" "''staging''" 29 0]
  note one = campaign_sample_count [of still_clock flaky_collect "''acme-shop''" "''staging''" 30 0]
  note three = campaign_sample_count [of still_clock flaky_collect "''acme-shop''" "''staging''" 95 0]
  have 1: "length (fst (performMonitoring still_clock flaky_collect ''acme-shop'' ''staging'' 30 0)) = 1"
    using one by simp
  have 2: "length (fst (performMonitoring still_clock flaky_collect ''acme-shop'' ''staging'' 95 0)) = 3"
    using three by simp
  have 3: "fst (performMonitoring still_clock flaky_collect ''acme-shop'' ''staging'' 29 0) = []"
    using short by simp
  have 4: "map sample_error
             (fst (performMonitoring still_clock flaky_collect ''acme-shop'' ''staging'' 95 0))
           = [None, Some ''socket hang up'', None]"
    using three flaky_campaign_log
    by (auto simp: prod_eq_iff split: prod.splits)
  from 1 2 3 4 flaky_campaign_log show ?thesis by simp
qed

end
